theory Spec2Isabelle
  imports Main "HOL-Library.Word" "HOL-Library.Char_ord" "HOL-Library.List_Lexorder"
    "HOL-Library.Product_Lexorder"
begin

section \<open>Data model\<close>

text \<open>
  Go's \<open>int\<close> is a 64-bit two's complement integer on the platforms the service is
  built for: arithmetic wraps around, comparisons read the value as signed (\<open>sint\<close>).
\<close>

type_synonym go_int = "64 word"

type_synonym bytes = "8 word list"

text \<open>
  A \<open>time.Time\<close> value, as far as the code uses it: the calendar date, which
  \<open>Format("2006/01/02")\<close> prints, and the time of day in nanoseconds. Instants are
  ordered by \<open>time_key\<close>.
\<close>

record gotime =
  t_year :: nat
  t_month :: nat
  t_day :: nat
  t_nanos :: nat

definition time_key :: "gotime \<Rightarrow> nat \<times> nat \<times> nat \<times> nat" where
  "time_key t = (t_year t, t_month t, t_day t, t_nanos t)"

definition zero_time :: gotime where
  "zero_time = \<lparr>t_year = 1, t_month = 1, t_day = 1, t_nanos = 0\<rparr>"

text \<open>
  \<open>entity.Book\<close>, with the fields the code reads and writes (package
  \<open>internal/entity\<close>).
\<close>

record Book =
  ID :: string
  Title :: string
  Author :: string
  Publisher :: string
  Year :: go_int
  CreatedAt :: gotime
  UpdatedAt :: gotime
  ISBN :: string
  DocumentID :: string
  FilePath :: string
  Format :: string
  CoverPath :: string

text \<open>The zero value \<open>entity.Book{}\<close>.\<close>

definition Book_zero :: Book where
  "Book_zero = \<lparr>ID = [], Title = [], Author = [], Publisher = [], Year = 0,
     CreatedAt = zero_time, UpdatedAt = zero_time, ISBN = [], DocumentID = [],
     FilePath = [], Format = [], CoverPath = []\<rparr>"

text \<open>
  A row of table \<open>library_book\<close>, with the eleven columns the statements of
  \<open>book_postgres.go\<close> name. There is no column for the format.
\<close>

record library_book =
  book_id :: string
  title :: string
  author :: string
  publisher :: string
  year :: go_int
  created_at :: gotime
  updated_at :: gotime
  isbn :: string
  storage_file_path :: string
  koreader_partial_md5 :: string
  storage_cover_path :: string

text \<open>
  Errors. \<open>ErrBookAlreadyExists\<close> is the sentinel of package entity; \<open>ErrNoRows\<close>
  is what scanning an empty result gives; \<open>Backend msg\<close> is an error of a driver, of
  the storage backend, of the file system or of the extractor, with its message;
  \<open>New msg\<close> is \<open>errors.New(msg)\<close> or \<open>fmt.Errorf(msg)\<close>;
  \<open>Wrapf p e\<close> is \<open>fmt.Errorf(p + ": %w", e)\<close>, which \<open>errors.Is\<close> sees through;
  \<open>Msgf p e\<close> is \<open>fmt.Errorf(p + ": %s", e)\<close>, which keeps only the text.
\<close>

datatype error =
  ErrBookAlreadyExists
| ErrNoRows
| Backend string
| New string
| Wrapf string error
| Msgf string error

fun errors_Is :: "error \<Rightarrow> error \<Rightarrow> bool" where
  "errors_Is (Wrapf p e) t = (Wrapf p e = t \<or> errors_Is e t)"
| "errors_Is e t = (e = t)"

section \<open>Catalog repository (book\_postgres.go)\<close>

text \<open>
  The table is the list of its rows, in the order of insertion. Every method runs one
  statement on the connection pool; \<open>fault\<close> is the error of the driver for that
  statement, if the backend fails (\<open>None\<close> when it answers).
\<close>

text \<open>\<open>rows.Scan\<close> into an \<open>entity.Book\<close>: the format field keeps its zero value.\<close>

definition Scan :: "library_book \<Rightarrow> Book" where
  "Scan r = \<lparr>ID = book_id r, Title = title r, Author = author r,
     Publisher = publisher r, Year = year r, CreatedAt = created_at r,
     UpdatedAt = updated_at r, ISBN = isbn r, DocumentID = koreader_partial_md5 r,
     FilePath = storage_file_path r, Format = [], CoverPath = storage_cover_path r\<rparr>"

definition GetById :: "string option \<Rightarrow> library_book list \<Rightarrow> string \<Rightarrow> Book \<times> error option" where
  "GetById fault tbl i =
     (case fault of
        Some msg \<Rightarrow> (Book_zero, Some (Wrapf ''BookDatabaseRepo - Get - r.Pool.QueryRow'' (Backend msg)))
      | None \<Rightarrow>
          (case filter (\<lambda>r. book_id r = i) tbl of
             [] \<Rightarrow> (Book_zero, Some (Wrapf ''BookDatabaseRepo - Get - r.Pool.QueryRow'' ErrNoRows))
           | r # _ \<Rightarrow> (Scan r, None)))"

definition GetByFileHash :: "string option \<Rightarrow> library_book list \<Rightarrow> string \<Rightarrow> Book \<times> error option" where
  "GetByFileHash fault tbl fileHash =
     (case fault of
        Some msg \<Rightarrow> (Book_zero, Some (Wrapf ''BookDatabaseRepo - GetByFileHash - r.Pool.QueryRow'' (Backend msg)))
      | None \<Rightarrow>
          (case filter (\<lambda>r. koreader_partial_md5 r = fileHash) tbl of
             [] \<Rightarrow> (Book_zero, Some (Wrapf ''BookDatabaseRepo - GetByFileHash - r.Pool.QueryRow'' ErrNoRows))
           | r # _ \<Rightarrow> (Scan r, None)))"

text \<open>
  \<open>UPDATE library_book SET title, author, publisher, year, updated_at, isbn WHERE id\<close>:
  the six columns of every row with the book's id are overwritten; the number of such
  rows is \<open>RowsAffected\<close>.
\<close>

definition update_row :: "Book \<Rightarrow> library_book \<Rightarrow> library_book" where
  "update_row book r =
     (if book_id r = ID book
      then r\<lparr>title := Title book, author := Author book, publisher := Publisher book,
             year := Year book, updated_at := UpdatedAt book, isbn := ISBN book\<rparr>
      else r)"

definition Update :: "string option \<Rightarrow> library_book list \<Rightarrow> Book \<Rightarrow> error option \<times> library_book list" where
  "Update fault tbl book =
     (case fault of
        Some msg \<Rightarrow> (Some (Wrapf ''BookDatabaseRepo - Update - r.Pool.Exec'' (Backend msg)), tbl)
      | None \<Rightarrow>
          (let rowsAffected = length (filter (\<lambda>r. book_id r = ID book) tbl);
               tbl' = map (update_row book) tbl
           in if rowsAffected = 0
              then (Some (New ''BookDatabaseRepo - Update - no rows affected''), tbl')
              else (None, tbl')))"

text \<open>\<open>strings.Contains(s, substr)\<close>.\<close>

primrec strings_Contains :: "string \<Rightarrow> string \<Rightarrow> bool" where
  "strings_Contains [] substr = (substr = [])"
| "strings_Contains (c # s) substr =
     (take (length substr) (c # s) = substr \<or> strings_Contains s substr)"

text \<open>The message of the engine for a violated uniqueness constraint.\<close>

definition duplicate_key_message :: string where
  "duplicate_key_message =
     ''ERROR: duplicate key value violates unique constraint (SQLSTATE 23505)''"

text \<open>
  Modelled from the spec: the schema of table \<open>library_book\<close> is not among the
  sources; the spec gives it "uniqueness constraints on ID and on content fingerprint",
  and the engine reports a violation as a "duplicate key" error. \<open>INSERT\<close> appends
  the row unless the backend fails or a row with the same id or the same fingerprint is
  there; the result is the error message of the driver, if any, and the table.
\<close>

definition Exec_insert :: "string option \<Rightarrow> library_book list \<Rightarrow> library_book \<Rightarrow> string option \<times> library_book list" where
  "Exec_insert fault tbl row =
     (case fault of
        Some msg \<Rightarrow> (Some msg, tbl)
      | None \<Rightarrow>
          if list_ex (\<lambda>r. book_id r = book_id row) tbl then (Some duplicate_key_message, tbl)
          else if list_ex (\<lambda>r. koreader_partial_md5 r = koreader_partial_md5 row) tbl
          then (Some duplicate_key_message, tbl)
          else (None, tbl @ [row]))"

text \<open>The arguments of the \<open>INSERT\<close> statement of \<open>Store\<close>, as a row.\<close>

definition insert_args :: "Book \<Rightarrow> library_book" where
  "insert_args book = \<lparr>book_id = ID book, title = Title book, author = Author book,
     publisher = Publisher book, year = Year book, created_at = CreatedAt book,
     updated_at = UpdatedAt book, isbn = ISBN book, storage_file_path = FilePath book,
     koreader_partial_md5 = DocumentID book, storage_cover_path = CoverPath book\<rparr>"

definition Store :: "string option \<Rightarrow> library_book list \<Rightarrow> Book \<Rightarrow> error option \<times> library_book list" where
  "Store fault tbl book =
     (case Exec_insert fault tbl (insert_args book) of
        (Some msg, tbl') \<Rightarrow>
          if strings_Contains msg ''duplicate key value violates unique constraint''
          then (Some (Wrapf ''BookDatabaseRepo - Store - r.Pool.Exec'' ErrBookAlreadyExists), tbl')
          else (Some (Wrapf ''BookDatabaseRepo - Store - r.Pool.Exec'' (Backend msg)), tbl')
      | (None, tbl') \<Rightarrow> (None, tbl'))"

section \<open>Listing and searching (book\_postgres.go)\<close>

text \<open>
  \<open>ORDER BY col dir\<close>: the rows sorted by one column, ascending or descending, rows
  with equal values staying in the order of the table. Text compares byte by byte, the
  year as a signed integer, timestamps as instants.
\<close>

definition sortable_columns :: "string list" where
  "sortable_columns =
     [''title'', ''author'', ''publisher'', ''year'', ''created_at'', ''updated_at'', ''isbn'']"

definition column_le :: "string \<Rightarrow> library_book \<Rightarrow> library_book \<Rightarrow> bool" where
  "column_le col a b =
     (if col = ''title'' then title a \<le> title b
      else if col = ''author'' then author a \<le> author b
      else if col = ''publisher'' then publisher a \<le> publisher b
      else if col = ''year'' then sint (year a) \<le> sint (year b)
      else if col = ''created_at'' then time_key (created_at a) \<le> time_key (created_at b)
      else if col = ''updated_at'' then time_key (updated_at a) \<le> time_key (updated_at b)
      else isbn a \<le> isbn b)"

fun insert_by :: "('a \<Rightarrow> 'a \<Rightarrow> bool) \<Rightarrow> 'a \<Rightarrow> 'a list \<Rightarrow> 'a list" where
  "insert_by le x [] = [x]"
| "insert_by le x (y # ys) = (if le x y then x # y # ys else y # insert_by le x ys)"

definition sort_by :: "('a \<Rightarrow> 'a \<Rightarrow> bool) \<Rightarrow> 'a list \<Rightarrow> 'a list" where
  "sort_by le xs = foldr (insert_by le) xs []"

definition order_by :: "string \<Rightarrow> string \<Rightarrow> library_book list \<Rightarrow> library_book list" where
  "order_by col dir rows =
     (if dir = ''asc'' then sort_by (column_le col) rows
      else sort_by (\<lambda>a b. column_le col b a) rows)"

text \<open>
  The \<open>SELECT\<close> statement of \<open>List\<close> and \<open>Search\<close> on the engine: the rows that
  satisfy the \<open>WHERE\<close> condition, ordered, \<open>OFFSET\<close> rows skipped, at most
  \<open>LIMIT\<close> rows returned. The engine refuses a negative \<open>LIMIT\<close> or \<open>OFFSET\<close>,
  and any text in the \<open>ORDER BY\<close> clause but a column and a direction (only the seven
  columns above and the two directions reach the statement). The result is the error
  message of the driver, or the rows.
\<close>

definition Pool_Query :: "string option \<Rightarrow> (library_book \<Rightarrow> bool) \<Rightarrow> string \<Rightarrow> string \<Rightarrow> int \<Rightarrow> int \<Rightarrow> library_book list \<Rightarrow> string + library_book list" where
  "Pool_Query fault cond col dir lim off tbl =
     (case fault of
        Some msg \<Rightarrow> Inl msg
      | None \<Rightarrow>
          if col \<notin> set sortable_columns \<or> (dir \<noteq> ''asc'' \<and> dir \<noteq> ''desc'')
          then Inl ''ERROR: syntax error in ORDER BY (SQLSTATE 42601)''
          else if lim < 0 then Inl ''ERROR: LIMIT must not be negative (SQLSTATE 2201W)''
          else if off < 0 then Inl ''ERROR: OFFSET must not be negative (SQLSTATE 2201X)''
          else Inr (take (nat lim) (drop (nat off) (order_by col dir (filter cond tbl)))))"

text \<open>
  What the environment answers during one query: the failures of the driver in
  \<open>Pool.Query\<close>, in \<open>rows.Scan\<close> and in \<open>rows.Err\<close>.
\<close>

record query_env =
  q_Query_fault :: "string option"
  q_Scan_fault :: "string option"
  q_Err_fault :: "string option"

text \<open>
  The loop over the rows of the result, which \<open>List\<close> and \<open>Search\<close> share but for
  the name \<open>method\<close> in their errors: a failing \<open>rows.Scan\<close> ends it at the first
  row; \<open>rows.Err\<close> is read after the last.
\<close>

definition scan_rows :: "string \<Rightarrow> query_env \<Rightarrow> library_book list \<Rightarrow> Book list \<times> error option" where
  "scan_rows method env rows =
     (case (rows, q_Scan_fault env) of
        (r # _, Some msg) \<Rightarrow>
          ([], Some (Wrapf (''BookDatabaseRepo - '' @ method @ '' - rows.Scan'') (Backend msg)))
      | _ \<Rightarrow>
          (case q_Err_fault env of
             Some msg \<Rightarrow>
               ([], Some (Wrapf (''BookDatabaseRepo - '' @ method @ '' - rows.Err'') (Backend msg)))
           | None \<Rightarrow> (map Scan rows, None)))"

definition List :: "query_env \<Rightarrow> library_book list \<Rightarrow> string \<Rightarrow> string \<Rightarrow> go_int \<Rightarrow> go_int \<Rightarrow> Book list \<times> error option" where
  "List env tbl sortBy sortOrder page perPage =
     (let sortOrder = (if sortOrder = ''asc'' \<or> sortOrder = ''desc'' then sortOrder else ''desc'');
          sortBy = (if sortBy \<in> set sortable_columns then sortBy else ''created_at'');
          page = (if sint page \<le> 0 then 1 else page);
          perPage = (if sint perPage \<le> 0 \<or> sint perPage > 100 then 25 else perPage)
      in case Pool_Query (q_Query_fault env) (\<lambda>r. True) sortBy sortOrder
                (sint perPage) (sint ((page - 1) * perPage)) tbl of
           Inl msg \<Rightarrow> ([], Some (Wrapf ''BookDatabaseRepo - List - r.Pool.Query'' (Backend msg)))
         | Inr rows \<Rightarrow> scan_rows ''List'' env rows)"

text \<open>
  \<open>subject ILIKE pattern\<close>: in the pattern \<open>%\<close> stands for any sequence of
  characters, \<open>_\<close> for any one character, and a backslash takes the next character
  literally; letters match without regard to case. Characters are bytes and case is that
  of the ASCII letters. (A pattern that ends in a lone backslash, which the engine refuses,
  cannot come from \<open>Search\<close>: its patterns end in \<open>%\<close>.)
\<close>

fun like_match :: "string \<Rightarrow> string \<Rightarrow> bool" where
  "like_match [] s = (s = [])"
| "like_match (p # ps) [] = (p = CHR ''%'' \<and> like_match ps [])"
| "like_match (p # ps) (c # cs) =
     (if p = CHR ''%'' then like_match ps (c # cs) \<or> like_match (p # ps) cs
      else if p = CHR ''_'' then like_match ps cs
      else if p = CHR 0x5C
      then (case ps of [] \<Rightarrow> False | q # qs \<Rightarrow> q = c \<and> like_match qs cs)
      else p = c \<and> like_match ps cs)"

definition to_lower :: "char \<Rightarrow> char" where
  "to_lower c = (if CHR ''A'' \<le> c \<and> c \<le> CHR ''Z'' then char_of (of_char c + (32::nat)) else c)"

definition ILIKE :: "string \<Rightarrow> string \<Rightarrow> bool" where
  "ILIKE subject pattern = like_match (map to_lower pattern) (map to_lower subject)"

definition search_condition :: "string \<Rightarrow> library_book \<Rightarrow> bool" where
  "search_condition searchPattern r =
     (ILIKE (title r) searchPattern \<or> ILIKE (author r) searchPattern \<or>
      ILIKE (publisher r) searchPattern \<or> ILIKE (isbn r) searchPattern)"

definition Search :: "query_env \<Rightarrow> library_book list \<Rightarrow> string \<Rightarrow> string \<Rightarrow> string \<Rightarrow> go_int \<Rightarrow> go_int \<Rightarrow> Book list \<times> error option" where
  "Search env tbl query sortBy sortOrder page perPage =
     (let sortOrder = (if sortOrder = ''asc'' \<or> sortOrder = ''desc'' then sortOrder else ''desc'');
          sortBy = (if sortBy \<in> set sortable_columns then sortBy else ''created_at'');
          page = (if sint page \<le> 0 then 1 else page);
          perPage = (if sint perPage \<le> 0 \<or> sint perPage > 100 then 25 else perPage);
          searchPattern = ''%'' @ query @ ''%''
      in case Pool_Query (q_Query_fault env) (search_condition searchPattern) sortBy sortOrder
                (sint perPage) (sint ((page - 1) * perPage)) tbl of
           Inl msg \<Rightarrow> ([], Some (Wrapf ''BookDatabaseRepo - Search - r.Pool.Query'' (Backend msg)))
         | Inr rows \<Rightarrow> scan_rows ''Search'' env rows)"

definition CountSearch :: "string option \<Rightarrow> library_book list \<Rightarrow> string \<Rightarrow> go_int \<times> error option" where
  "CountSearch fault tbl query =
     (let searchPattern = ''%'' @ query @ ''%''
      in case fault of
           Some msg \<Rightarrow> (0, Some (Wrapf ''BookDatabaseRepo - CountSearch - r.Pool.QueryRow'' (Backend msg)))
         | None \<Rightarrow> (of_nat (length (filter (search_condition searchPattern) tbl)), None))"

definition Count :: "string option \<Rightarrow> library_book list \<Rightarrow> go_int \<times> error option" where
  "Count fault tbl =
     (case fault of
        Some msg \<Rightarrow> (0, Some (Wrapf ''BookDatabaseRepo - Count - r.Pool.QueryRow'' (Backend msg)))
      | None \<Rightarrow> (of_nat (length tbl), None))"

section \<open>The world of the book shelf service\<close>

text \<open>
  The service works on three ports: the catalog repository, the storage port and the
  metadata extractor. The world is the table behind the repository, the blobs behind the
  storage port, and the sequence of calls the service has made on its ports, in order
  (calls of the logger are left out: they have no effect on the result).
\<close>

datatype port_call =
  Call_PartialMD5 string
| Call_GetByFileHash string
| Call_ExtractBookMetadata string
| Call_CreateTemp
| Call_TempFileWrite
| Call_StorageWrite string string
| Call_StorageRead string
| Call_Store Book
| Call_GetById string
| Call_Update Book

record world =
  catalog :: "library_book list"
  blobs :: "string \<rightharpoonup> bytes"
  calls :: "port_call list"

definition logged :: "port_call \<Rightarrow> world \<Rightarrow> world" where
  "logged c w = w\<lparr>calls := calls w @ [c]\<rparr>"

text \<open>The repository behind the \<open>BookRepo\<close> interface of the service.\<close>

definition repo_GetById :: "string option \<Rightarrow> string \<Rightarrow> world \<Rightarrow> (Book \<times> error option) \<times> world" where
  "repo_GetById fault i w = (GetById fault (catalog w) i, logged (Call_GetById i) w)"

definition repo_GetByFileHash :: "string option \<Rightarrow> string \<Rightarrow> world \<Rightarrow> (Book \<times> error option) \<times> world" where
  "repo_GetByFileHash fault h w =
     (GetByFileHash fault (catalog w) h, logged (Call_GetByFileHash h) w)"

definition repo_Update :: "string option \<Rightarrow> Book \<Rightarrow> world \<Rightarrow> error option \<times> world" where
  "repo_Update fault book w =
     (case Update fault (catalog w) book of
        (err, tbl') \<Rightarrow> (err, (logged (Call_Update book) w)\<lparr>catalog := tbl'\<rparr>))"

definition repo_Store :: "string option \<Rightarrow> Book \<Rightarrow> world \<Rightarrow> error option \<times> world" where
  "repo_Store fault book w =
     (case Store fault (catalog w) book of
        (err, tbl') \<Rightarrow> (err, (logged (Call_Store book) w)\<lparr>catalog := tbl'\<rparr>))"

text \<open>
  Modelled from the spec: package \<open>internal/storage\<close> is not among the sources; the
  spec gives the port as a "key-addressed binary object store (write-by-path,
  read-by-path)" with \<open>Write(context, localSourcePath, destinationKey) -> error\<close> and
  \<open>Read(context, key) -> fileHandle, error\<close>. A write that succeeds stores the
  content of the local file under the key; one that fails stores nothing. A read gives the
  content under the key, and an error when the backend fails or holds nothing there.
\<close>

definition storage_Write :: "error option \<Rightarrow> bytes \<Rightarrow> string \<Rightarrow> string \<Rightarrow> world \<Rightarrow> error option \<times> world" where
  "storage_Write fault content src dst w =
     (let w1 = logged (Call_StorageWrite src dst) w
      in case fault of
           Some e \<Rightarrow> (Some e, w1)
         | None \<Rightarrow> (None, w1\<lparr>blobs := (blobs w1)(dst \<mapsto> content)\<rparr>))"

text \<open>
  Modelled from the spec: \<open>Read(context, key) -> fileHandle, error\<close> of the storage
  port; the file handle is the content of the blob.
\<close>

definition storage_Read :: "error option \<Rightarrow> string \<Rightarrow> world \<Rightarrow> (bytes option \<times> error option) \<times> world" where
  "storage_Read fault k w =
     (let w1 = logged (Call_StorageRead k) w
      in case fault of
           Some e \<Rightarrow> ((None, Some e), w1)
         | None \<Rightarrow>
             (case blobs w1 k of
                None \<Rightarrow> ((None, Some (Backend ''storage: no object under the key'')), w1)
              | Some content \<Rightarrow> ((Some content, None), w1)))"

section \<open>Book shelf service\<close>

text \<open>
  The result of \<open>metadata.ExtractBookMetadata\<close> (package \<open>pkg/metadata\<close>) and an
  open local file (\<open>*os.File\<close>): its name and its content.
\<close>

record Metadata =
  meta_Title :: string
  meta_Author :: string
  meta_Publisher :: string
  meta_ISBN :: string
  meta_Cover :: bytes
  meta_Format :: string

record os_File =
  file_Name :: string
  file_content :: bytes

text \<open>\<open>createDate.Format("2006/01/02")\<close>: year, month and day in decimal, zero-padded.\<close>

definition digit_char :: "nat \<Rightarrow> char" where
  "digit_char d = char_of (48 + d)"

fun decimal :: "nat \<Rightarrow> string" where
  "decimal n = (if n < 10 then [digit_char n] else decimal (n div 10) @ [digit_char (n mod 10)])"

declare decimal.simps [simp del]

definition zero_pad :: "nat \<Rightarrow> string \<Rightarrow> string" where
  "zero_pad k s = replicate (k - length s) (CHR ''0'') @ s"

definition Format_date :: "gotime \<Rightarrow> string" where
  "Format_date t =
     zero_pad 4 (decimal (t_year t)) @ ''/'' @ zero_pad 2 (decimal (t_month t)) @ ''/'' @
     zero_pad 2 (decimal (t_day t))"

text \<open>
  What the environment answers during one run of \<open>StoreBook\<close>: the result of
  \<open>utils.PartialMD5\<close>, the failure of the driver during \<open>GetByFileHash\<close>, the result
  of the extractor, the identifier \<open>uuidv7.Generate()\<close> and the instant
  \<open>time.Now()\<close>, the failure of the primary \<open>storage.Write\<close>, the result of
  \<open>os.CreateTemp\<close> (the name of the new file), the failures of writing the cover to it
  and of the cover's \<open>storage.Write\<close>, and the failure of the driver during \<open>Store\<close>.
\<close>

record store_env =
  env_PartialMD5 :: "error + string"
  env_GetByFileHash_fault :: "string option"
  env_ExtractBookMetadata :: "error + Metadata"
  env_uuid :: string
  env_Now :: gotime
  env_Write_fault :: "error option"
  env_CreateTemp :: "error + string"
  env_TempWrite_fault :: "error option"
  env_CoverWrite_fault :: "error option"
  env_Store_fault :: "string option"

definition writeCover :: "store_env \<Rightarrow> bytes \<Rightarrow> string \<Rightarrow> world \<Rightarrow> (string \<times> error option) \<times> world" where
  "writeCover env cover bookID w =
     (if length cover = 0 then (([], None), w)
      else
        (let w1 = logged Call_CreateTemp w
         in case env_CreateTemp env of
              Inl err \<Rightarrow> (([], Some (Wrapf ''BookShelf - writeCover - os.CreateTemp'' err)), w1)
            | Inr tmpName \<Rightarrow>
                (let w2 = logged Call_TempFileWrite w1
                 in case env_TempWrite_fault env of
                      Some err \<Rightarrow>
                        (([], Some (Wrapf ''BookShelf - writeCover - coverTempFile.Write'' err)), w2)
                    | None \<Rightarrow>
                        (let coverpath = ''covers/'' @ bookID @ ''.jpg''
                         in case storage_Write (env_CoverWrite_fault env) cover tmpName coverpath w2 of
                              (Some err, w3) \<Rightarrow>
                                (([], Some (Wrapf ''BookShelf - writeCover - s.storage.Write'' err)), w3)
                            | (None, w3) \<Rightarrow> ((coverpath, None), w3)))))"

text \<open>
  \<open>StoreBook\<close> from the extraction on (the statements after the dedup check), for the
  fingerprint \<open>koreaderPartialMD5\<close>.
\<close>

definition StoreBook_ingest :: "store_env \<Rightarrow> os_File \<Rightarrow> string \<Rightarrow> world \<Rightarrow> (Book \<times> error option) \<times> world" where
  "StoreBook_ingest env tempFile koreaderPartialMD5 w =
     (let w1 = logged (Call_ExtractBookMetadata (file_Name tempFile)) w
      in case env_ExtractBookMetadata env of
           Inl err \<Rightarrow> ((Book_zero, Some (Wrapf ''BookShelf - StoreBook - exractMetadata'' err)), w1)
         | Inr m \<Rightarrow>
             if meta_Format m = []
             then ((Book_zero, Some (New ''BookShelf - StoreBook - unknown file format'')), w1)
             else
               (let bookID = env_uuid env;
                    createDate = env_Now env;
                    storagepath = Format_date createDate @ ''/'' @ bookID @ ''.'' @ meta_Format m
                in case storage_Write (env_Write_fault env) (file_content tempFile)
                          (file_Name tempFile) storagepath w1 of
                     (Some err, w2) \<Rightarrow>
                       ((Book_zero, Some (Wrapf ''BookShelf - StoreBook - s.storage.Write'' err)), w2)
                   | (None, w2) \<Rightarrow>
                       (case writeCover env (meta_Cover m) bookID w2 of
                          ((coverPath, _), w3) \<Rightarrow>
                            (let book = \<lparr>ID = bookID, Title = meta_Title m, Author = meta_Author m,
                                   Publisher = meta_Publisher m, Year = 0, CreatedAt = createDate,
                                   UpdatedAt = createDate, ISBN = meta_ISBN m,
                                   DocumentID = koreaderPartialMD5, FilePath = storagepath,
                                   Format = meta_Format m, CoverPath = coverPath\<rparr>
                             in case repo_Store (env_Store_fault env) book w3 of
                                  (Some err, w4) \<Rightarrow>
                                    ((Book_zero, Some (Wrapf ''BookShelf - StoreBook - s.repo.Store'' err)), w4)
                                | (None, w4) \<Rightarrow> ((book, None), w4)))))"

definition StoreBook :: "store_env \<Rightarrow> os_File \<Rightarrow> string \<Rightarrow> world \<Rightarrow> (Book \<times> error option) \<times> world" where
  "StoreBook env tempFile uploadedFilename w =
     (let w1 = logged (Call_PartialMD5 (file_Name tempFile)) w
      in case env_PartialMD5 env of
           Inl err \<Rightarrow> ((Book_zero, Some (Wrapf ''BookShelf - StoreBook - PartialMD5'' err)), w1)
         | Inr koreaderPartialMD5 \<Rightarrow>
             (case repo_GetByFileHash (env_GetByFileHash_fault env) koreaderPartialMD5 w1 of
                ((foundBook, None), w2) \<Rightarrow> ((foundBook, Some ErrBookAlreadyExists), w2)
              | ((foundBook, Some err), w2) \<Rightarrow> StoreBook_ingest env tempFile koreaderPartialMD5 w2))"

text \<open>
  What the environment answers during one run of \<open>UpdateBookMetadata\<close>: the failures
  of the driver during \<open>GetById\<close> and \<open>Update\<close>, and the instant \<open>time.Now()\<close>.
\<close>

record update_env =
  upd_GetById_fault :: "string option"
  upd_Now :: gotime
  upd_Update_fault :: "string option"

definition UpdateBookMetadata :: "update_env \<Rightarrow> string \<Rightarrow> Book \<Rightarrow> world \<Rightarrow> (Book \<times> error option) \<times> world" where
  "UpdateBookMetadata env bookID metadata w =
     (case repo_GetById (upd_GetById_fault env) bookID w of
        ((book, Some err), w1) \<Rightarrow>
          ((Book_zero, Some (Wrapf ''BookShelf - UpdateBookMetadata - s.repo.Get'' err)), w1)
      | ((book, None), w1) \<Rightarrow>
          (let updatedBook = book;
               updatedBook = (if Title metadata \<noteq> [] then updatedBook\<lparr>Title := Title metadata\<rparr>
                              else updatedBook);
               updatedBook = (if Author metadata \<noteq> [] then updatedBook\<lparr>Author := Author metadata\<rparr>
                              else updatedBook);
               updatedBook = (if Publisher metadata \<noteq> []
                              then updatedBook\<lparr>Publisher := Publisher metadata\<rparr> else updatedBook);
               updatedBook = (if Year metadata \<noteq> 0 then updatedBook\<lparr>Year := Year metadata\<rparr>
                              else updatedBook);
               updatedBook = (if ISBN metadata \<noteq> [] \<or> (ISBN metadata = [] \<and> ISBN book \<noteq> [])
                              then updatedBook\<lparr>ISBN := ISBN metadata\<rparr> else updatedBook);
               updatedBook = updatedBook\<lparr>UpdatedAt := upd_Now env\<rparr>
           in case repo_Update (upd_Update_fault env) updatedBook w1 of
                (Some err, w2) \<Rightarrow>
                  ((Book_zero, Some (Wrapf ''BookShelf - UpdateBookMetadata - s.repo.Update'' err)), w2)
              | (None, w2) \<Rightarrow> ((updatedBook, None), w2)))"

text \<open>
  What the environment answers during one run of \<open>ViewCover\<close>: the failure of the
  driver during \<open>GetById\<close> and the failure of \<open>storage.Read\<close>.
\<close>

record cover_env =
  vc_GetById_fault :: "string option"
  vc_Read_fault :: "error option"

definition ViewCover :: "cover_env \<Rightarrow> string \<Rightarrow> world \<Rightarrow> (bytes option \<times> error option) \<times> world" where
  "ViewCover env bookID w =
     (case repo_GetById (vc_GetById_fault env) bookID w of
        ((book, Some err), w1) \<Rightarrow> ((None, Some (Msgf ''BookShelf - ViewCover - s.repo.Get'' err)), w1)
      | ((book, None), w1) \<Rightarrow>
          if CoverPath book = [] then ((None, Some (New ''BookShelf - ViewCover - no cover'')), w1)
          else
            (case storage_Read (vc_Read_fault env) (CoverPath book) w1 of
               ((file, Some err), w2) \<Rightarrow>
                 ((None, Some (Msgf ''BookShelf - ViewCover - s.storage.Read'' err)), w2)
             | ((file, None), w2) \<Rightarrow> ((file, None), w2)))"

section \<open>Sequences of metadata updates\<close>

text \<open>
  The fields of a book that no statement but the \<open>INSERT\<close> of \<open>Store\<close> writes, and
  two rows that agree on them, read as the repository reads a row.
\<close>

definition same_immutable_fields :: "Book \<Rightarrow> Book \<Rightarrow> bool" where
  "same_immutable_fields a b =
     (ID a = ID b \<and> CreatedAt a = CreatedAt b \<and> DocumentID a = DocumentID b \<and>
      FilePath a = FilePath b \<and> CoverPath a = CoverPath b \<and> Format a = Format b)"

definition same_identity :: "library_book \<Rightarrow> library_book \<Rightarrow> bool" where
  "same_identity r r' = same_immutable_fields (Scan r) (Scan r')"

text \<open>Any number of calls of \<open>UpdateBookMetadata\<close>, one after the other.\<close>

fun run_updates :: "(update_env \<times> string \<times> Book) list \<Rightarrow> world \<Rightarrow> world" where
  "run_updates [] w = w"
| "run_updates ((env, bookID, metadata) # rest) w =
     run_updates rest (snd (UpdateBookMetadata env bookID metadata w))"

section \<open>Stages of a run of StoreBook\<close>

text \<open>
  Names for what \<open>StoreBook\<close> builds on its way: the world after the fingerprint and
  the dedup lookup, the storage path, the world after the primary blob write, and the
  record it assembles for a cover path.
\<close>

abbreviation after_dedup :: "os_File \<Rightarrow> string \<Rightarrow> world \<Rightarrow> world" where
  "after_dedup tempFile h w \<equiv>
     logged (Call_GetByFileHash h) (logged (Call_PartialMD5 (file_Name tempFile)) w)"

abbreviation storagepath_of :: "store_env \<Rightarrow> Metadata \<Rightarrow> string" where
  "storagepath_of env m \<equiv>
     Format_date (env_Now env) @ ''/'' @ env_uuid env @ ''.'' @ meta_Format m"

abbreviation after_primary_write :: "store_env \<Rightarrow> os_File \<Rightarrow> Metadata \<Rightarrow> world \<Rightarrow> world" where
  "after_primary_write env tempFile m w \<equiv>
     (logged (Call_StorageWrite (file_Name tempFile) (storagepath_of env m))
        (logged (Call_ExtractBookMetadata (file_Name tempFile)) w))
      \<lparr>blobs := (blobs w)(storagepath_of env m \<mapsto> file_content tempFile)\<rparr>"

abbreviation assembled_book :: "store_env \<Rightarrow> Metadata \<Rightarrow> string \<Rightarrow> string \<Rightarrow> Book" where
  "assembled_book env m h coverPath \<equiv>
     \<lparr>ID = env_uuid env, Title = meta_Title m, Author = meta_Author m,
      Publisher = meta_Publisher m, Year = 0, CreatedAt = env_Now env, UpdatedAt = env_Now env,
      ISBN = meta_ISBN m, DocumentID = h, FilePath = storagepath_of env m,
      Format = meta_Format m, CoverPath = coverPath\<rparr>"

section \<open>Example data\<close>

definition example_time :: gotime where
  "example_time = \<lparr>t_year = 2024, t_month = 3, t_day = 9, t_nanos = 0\<rparr>"

definition later_time :: gotime where
  "later_time = \<lparr>t_year = 2024, t_month = 4, t_day = 1, t_nanos = 5\<rparr>"

definition example_row :: library_book where
  "example_row = \<lparr>book_id = ''b1'', title = ''Dune'', author = ''Herbert'', publisher = ''Ace'',
     year = 1965, created_at = example_time, updated_at = example_time, isbn = ''ISBN123'',
     storage_file_path = ''2024/03/09/b1.epub'', koreader_partial_md5 = ''h1'',
     storage_cover_path = []\<rparr>"

definition example_world :: world where
  "example_world = \<lparr>catalog = [example_row],
     blobs = [''2024/03/09/b1.epub'' \<mapsto> [1, 2, 3]], calls = []\<rparr>"

definition example_update_env :: update_env where
  "example_update_env =
     \<lparr>upd_GetById_fault = None, upd_Now = later_time, upd_Update_fault = None\<rparr>"

definition cover_row :: library_book where
  "cover_row = example_row\<lparr>book_id := ''b3'', koreader_partial_md5 := ''h3'',
     storage_file_path := ''2024/03/09/b3.pdf'', storage_cover_path := ''covers/b3.jpg''\<rparr>"

definition cover_world :: world where
  "cover_world = \<lparr>catalog = [example_row, cover_row],
     blobs = [''2024/03/09/b1.epub'' \<mapsto> [1, 2, 3], ''2024/03/09/b3.pdf'' \<mapsto> [8],
              ''covers/b3.jpg'' \<mapsto> [9, 9]],
     calls = []\<rparr>"

definition example_cover_env :: cover_env where
  "example_cover_env = \<lparr>vc_GetById_fault = None, vc_Read_fault = None\<rparr>"

definition example_query_env :: query_env where
  "example_query_env = \<lparr>q_Query_fault = None, q_Scan_fault = None, q_Err_fault = None\<rparr>"

definition example_file :: os_File where
  "example_file = \<lparr>file_Name = ''/tmp/upload-1'', file_content = [4, 5, 6]\<rparr>"

definition example_meta :: Metadata where
  "example_meta = \<lparr>meta_Title = ''Emma'', meta_Author = ''Austen'', meta_Publisher = ''Murray'',
     meta_ISBN = [], meta_Cover = [7, 7], meta_Format = ''epub''\<rparr>"

text \<open>
  An upload that is new to the example catalog, in an environment where nothing fails.
\<close>

definition example_store_env :: store_env where
  "example_store_env = \<lparr>env_PartialMD5 = Inr ''h2'', env_GetByFileHash_fault = None,
     env_ExtractBookMetadata = Inr example_meta, env_uuid = ''b2'', env_Now = later_time,
     env_Write_fault = None, env_CreateTemp = Inr ''/tmp/cover-1'', env_TempWrite_fault = None,
     env_CoverWrite_fault = None, env_Store_fault = None\<rparr>"

text \<open>
  A second upload of the book of the example catalog, in an environment where the dedup
  lookup fails and nothing else does.
\<close>

definition failing_lookup_env :: store_env where
  "failing_lookup_env = example_store_env\<lparr>env_PartialMD5 := Inr ''h1'',
     env_GetByFileHash_fault := Some ''connection refused''\<rparr>"

section \<open>Point lookups and updates\<close>

lemma book_id_update_row: "book_id (update_row b r) = book_id r"
  by (simp add: update_row_def)

lemma filter_id_map_update_row:
  "filter (\<lambda>r. book_id r = i) (map (update_row b) tbl) =
   map (update_row b) (filter (\<lambda>r. book_id r = i) tbl)"
  by (induction tbl) (simp_all add: book_id_update_row)

lemma GetById_found:
  "GetById fault tbl i = (book, None) \<longleftrightarrow>
     fault = None \<and> (\<exists>r rest. filter (\<lambda>r. book_id r = i) tbl = r # rest \<and> book = Scan r)"
  by (auto simp: GetById_def split: option.splits list.splits)

lemma GetById_ID:
  assumes "GetById fault tbl i = (book, None)"
  shows "ID book = i"
proof -
  from assms obtain r rest where f: "filter (\<lambda>r. book_id r = i) tbl = r # rest" and b: "book = Scan r"
    by (auto simp: GetById_found)
  from f have "r \<in> set (filter (\<lambda>r. book_id r = i) tbl)" by simp
  then have "book_id r = i" by simp
  with b show ?thesis by (simp add: Scan_def)
qed

text \<open>
  C3. For a record that the repository resolves, a call of \<open>UpdateBookMetadata\<close> with
  a patch whose ISBN is the empty string, whose \<open>UPDATE\<close> the backend executes,
  succeeds and leaves the stored ISBN empty: a non-empty ISBN is cleared, an empty one
  stays empty.
\<close>

theorem UpdateBookMetadata_empty_ISBN_clears:
  assumes "GetById (upd_GetById_fault env) (catalog w) bookID = (book, None)"
      and "ISBN metadata = []"
      and "upd_Update_fault env = None"
  shows "\<exists>updated w' stored.
           UpdateBookMetadata env bookID metadata w = ((updated, None), w') \<and>
           ISBN updated = [] \<and>
           GetById None (catalog w') bookID = (stored, None) \<and> ISBN stored = []"
proof -
  from assms(1) obtain r rest where f: "filter (\<lambda>r. book_id r = bookID) (catalog w) = r # rest"
    and b: "book = Scan r" and nf: "upd_GetById_fault env = None"
    by (auto simp: GetById_found)
  have idb: "ID book = bookID" using assms(1) by (rule GetById_ID)
  show ?thesis
    using assms f b nf idb
    apply (simp add: UpdateBookMetadata_def repo_GetById_def repo_Update_def Update_def Let_def
        logged_def filter_id_map_update_row GetById_def split: prod.splits option.splits)
    apply (auto simp: update_row_def Scan_def)
    done
qed

theorem UpdateBookMetadata_empty_ISBN_clears_witness:
  "\<exists>updated w' stored.
     UpdateBookMetadata example_update_env ''b1'' Book_zero example_world = ((updated, None), w') \<and>
     ISBN updated = [] \<and>
     GetById None (catalog w') ''b1'' = (stored, None) \<and> ISBN stored = []"
  by (rule UpdateBookMetadata_empty_ISBN_clears [where book = "Scan example_row"])
    (simp_all add: GetById_def example_update_env_def example_world_def example_row_def
      Book_zero_def)

text \<open>
  C2, as stated, fails: the all-empty patch clears a non-empty ISBN. The stored record
  with ISBN \<open>ISBN123\<close> has another ISBN after the call.
\<close>

theorem UpdateBookMetadata_empty_patch_counterexample:
  "ISBN (fst (GetById None (catalog (snd (UpdateBookMetadata example_update_env ''b1'' Book_zero
       example_world))) ''b1''))
     \<noteq> ISBN (fst (GetById None (catalog example_world) ''b1''))"
  by (simp add: UpdateBookMetadata_def repo_GetById_def repo_Update_def Update_def Let_def
      logged_def GetById_def example_world_def example_row_def example_update_env_def
      Book_zero_def update_row_def Scan_def)

text \<open>
  C2, amended. For a record that the repository resolves, a call of
  \<open>UpdateBookMetadata\<close> with empty title, author, publisher and ISBN and year 0, whose
  \<open>UPDATE\<close> the backend executes, succeeds and leaves every field of the stored record
  as it was, except \<open>updated_at\<close>, which becomes the current instant, and the ISBN,
  which becomes the empty string.
\<close>

theorem UpdateBookMetadata_empty_patch:
  assumes "GetById (upd_GetById_fault env) (catalog w) bookID = (book, None)"
      and "Title metadata = []" and "Author metadata = []" and "Publisher metadata = []"
      and "ISBN metadata = []" and "Year metadata = 0"
      and "upd_Update_fault env = None"
  shows "\<exists>w'. UpdateBookMetadata env bookID metadata w =
             ((book\<lparr>ISBN := [], UpdatedAt := upd_Now env\<rparr>, None), w') \<and>
           GetById None (catalog w') bookID = (book\<lparr>ISBN := [], UpdatedAt := upd_Now env\<rparr>, None)"
proof -
  from assms(1) obtain r rest where f: "filter (\<lambda>r. book_id r = bookID) (catalog w) = r # rest"
    and b: "book = Scan r" and nf: "upd_GetById_fault env = None"
    by (auto simp: GetById_found)
  have idb: "ID book = bookID" using assms(1) by (rule GetById_ID)
  show ?thesis
    using assms f b nf idb
    apply (simp add: UpdateBookMetadata_def repo_GetById_def repo_Update_def Update_def Let_def
        logged_def filter_id_map_update_row GetById_def split: prod.splits option.splits)
    apply (auto simp: update_row_def Scan_def)
    done
qed

theorem UpdateBookMetadata_empty_patch_witness:
  "\<exists>w'. UpdateBookMetadata example_update_env ''b1'' Book_zero example_world =
       (((Scan example_row)\<lparr>ISBN := [], UpdatedAt := upd_Now example_update_env\<rparr>, None), w') \<and>
     GetById None (catalog w') ''b1'' =
       ((Scan example_row)\<lparr>ISBN := [], UpdatedAt := upd_Now example_update_env\<rparr>, None)"
  by (rule UpdateBookMetadata_empty_patch)
    (simp_all add: GetById_def example_update_env_def example_world_def example_row_def
      Book_zero_def)

subsection \<open>What no update changes\<close>

lemma frame_refl: "list_all2 same_identity tbl tbl"
  by (induction tbl) (simp_all add: same_identity_def same_immutable_fields_def)

lemma frame_update_row: "same_identity r (update_row b r)"
  by (simp add: same_identity_def same_immutable_fields_def Scan_def update_row_def)

lemma frame_map_update_row: "list_all2 same_identity tbl (map (update_row b) tbl)"
  by (induction tbl) (simp_all add: frame_update_row)

lemma frame_Update: "list_all2 same_identity tbl (snd (Update fault tbl b))"
  by (cases fault) (simp_all add: Update_def Let_def frame_refl frame_map_update_row)

lemma catalog_UpdateBookMetadata:
  "catalog (snd (UpdateBookMetadata env bookID metadata w)) = catalog w \<or>
   (\<exists>b err. Update (upd_Update_fault env) (catalog w) b =
      (err, catalog (snd (UpdateBookMetadata env bookID metadata w))))"
proof (cases "GetById (upd_GetById_fault env) (catalog w) bookID")
  case (Pair book err)
  show ?thesis
  proof (cases err)
    case None
    with Pair show ?thesis
      unfolding UpdateBookMetadata_def repo_GetById_def repo_Update_def Let_def
      by (auto simp: logged_def split: prod.splits option.splits
          simp del: split_paired_Ex split del: if_split)
  next
    case (Some e)
    with Pair show ?thesis
      by (simp add: UpdateBookMetadata_def repo_GetById_def logged_def)
  qed
qed

lemma frame_UpdateBookMetadata:
  "list_all2 same_identity (catalog w) (catalog (snd (UpdateBookMetadata env bookID metadata w)))"
  using catalog_UpdateBookMetadata[of env bookID metadata w]
proof
  assume "catalog (snd (UpdateBookMetadata env bookID metadata w)) = catalog w"
  then show ?thesis by (simp add: frame_refl)
next
  assume "\<exists>b err. Update (upd_Update_fault env) (catalog w) b =
      (err, catalog (snd (UpdateBookMetadata env bookID metadata w)))"
  then obtain b err where "Update (upd_Update_fault env) (catalog w) b =
      (err, catalog (snd (UpdateBookMetadata env bookID metadata w)))" by blast
  then have "catalog (snd (UpdateBookMetadata env bookID metadata w)) =
      snd (Update (upd_Update_fault env) (catalog w) b)" by simp
  then show ?thesis by (simp add: frame_Update)
qed

lemma same_identity_trans: "same_identity a b \<Longrightarrow> same_identity b c \<Longrightarrow> same_identity a c"
  by (simp add: same_identity_def same_immutable_fields_def)

lemma frame_trans:
  assumes "list_all2 same_identity xs ys" and "list_all2 same_identity ys zs"
  shows "list_all2 same_identity xs zs"
  using assms
proof (induction xs ys arbitrary: zs rule: list_all2_induct)
  case Nil
  then show ?case by simp
next
  case (Cons x xs y ys)
  from Cons.prems obtain z zs' where z: "zs = z # zs'" "same_identity y z"
    "list_all2 same_identity ys zs'"
    by (auto simp: list_all2_Cons1)
  with Cons show ?case by (auto intro: same_identity_trans)
qed

text \<open>
  C9. After any sequence of calls of \<open>UpdateBookMetadata\<close>, whatever the patches and
  whatever the backend answers, the table has the same rows in the same places, and every
  row has the id, the creation timestamp, the fingerprint, the storage path and the cover
  path it had (and, read by the repository, the same format): the \<open>UPDATE\<close> statement
  writes the other six columns only.
\<close>

theorem updates_keep_immutable_fields:
  "list_all2 same_identity (catalog w) (catalog (run_updates cs w))"
proof (induction cs arbitrary: w)
  case Nil
  show ?case by (simp add: frame_refl)
next
  case (Cons c cs)
  obtain env bookID metadata where c: "c = (env, bookID, metadata)" by (cases c)
  show ?case
    unfolding c run_updates.simps
    by (rule frame_trans[OF frame_UpdateBookMetadata Cons.IH])
qed

section \<open>Reading a cover\<close>

lemma logged_simps:
  "catalog (logged c w) = catalog w" "blobs (logged c w) = blobs w"
  "calls (logged c w) = calls w @ [c]"
  by (simp_all add: logged_def)

text \<open>
  C8. For a record that the repository resolves for the id: when its cover path is empty,
  \<open>ViewCover\<close> fails with the "no cover" error and the only call it has made is the
  lookup, so no \<open>storage.Read\<close>; when the cover path is not empty, it calls
  \<open>storage.Read\<close> on that path and, if the storage answers and holds a blob there,
  returns that blob.
\<close>

theorem ViewCover_no_cover:
  assumes "GetById (vc_GetById_fault env) (catalog w) bookID = (book, None)"
  shows "(CoverPath book = [] \<longrightarrow>
            ViewCover env bookID w =
              ((None, Some (New ''BookShelf - ViewCover - no cover'')),
               logged (Call_GetById bookID) w)) \<and>
         (CoverPath book \<noteq> [] \<longrightarrow>
            calls (snd (ViewCover env bookID w)) =
              calls w @ [Call_GetById bookID, Call_StorageRead (CoverPath book)] \<and>
            (\<forall>content. vc_Read_fault env = None \<longrightarrow> blobs w (CoverPath book) = Some content \<longrightarrow>
               fst (ViewCover env bookID w) = (Some content, None)))"
  using assms
  by (auto simp: ViewCover_def repo_GetById_def storage_Read_def Let_def logged_simps
      split: prod.splits option.splits)

theorem ViewCover_no_cover_witness:
  "ViewCover example_cover_env ''b1'' cover_world =
     ((None, Some (New ''BookShelf - ViewCover - no cover'')), logged (Call_GetById ''b1'') cover_world) \<and>
   calls (snd (ViewCover example_cover_env ''b3'' cover_world)) =
     [Call_GetById ''b3'', Call_StorageRead ''covers/b3.jpg''] \<and>
   fst (ViewCover example_cover_env ''b3'' cover_world) = (Some [9, 9], None)"
proof -
  have b1: "GetById (vc_GetById_fault example_cover_env) (catalog cover_world) ''b1'' =
      (Scan example_row, None)"
    by (simp add: GetById_def example_cover_env_def cover_world_def example_row_def cover_row_def)
  have b3: "GetById (vc_GetById_fault example_cover_env) (catalog cover_world) ''b3'' =
      (Scan cover_row, None)"
    by (simp add: GetById_def example_cover_env_def cover_world_def example_row_def cover_row_def)
  have c1: "CoverPath (Scan example_row) = []" by (simp add: Scan_def example_row_def)
  have c3: "CoverPath (Scan cover_row) = ''covers/b3.jpg''"
    by (simp add: Scan_def cover_row_def)
  have blob: "blobs cover_world ''covers/b3.jpg'' = Some [9, 9]" by (simp add: cover_world_def)
  have nf: "vc_Read_fault example_cover_env = None" by (simp add: example_cover_env_def)
  have cs: "calls cover_world = []" by (simp add: cover_world_def)
  from ViewCover_no_cover[OF b1] c1
  have "ViewCover example_cover_env ''b1'' cover_world =
     ((None, Some (New ''BookShelf - ViewCover - no cover'')), logged (Call_GetById ''b1'') cover_world)"
    by blast
  moreover from ViewCover_no_cover[OF b3] c3 blob nf cs
  have "calls (snd (ViewCover example_cover_env ''b3'' cover_world)) =
     [Call_GetById ''b3'', Call_StorageRead ''covers/b3.jpg''] \<and>
   fst (ViewCover example_cover_env ''b3'' cover_world) = (Some [9, 9], None)"
    by simp
  ultimately show ?thesis by blast
qed

section \<open>Storing a book\<close>

lemma GetByFileHash_found:
  "GetByFileHash fault tbl h = (book, None) \<longleftrightarrow>
     fault = None \<and> (\<exists>r rest. filter (\<lambda>r. koreader_partial_md5 r = h) tbl = r # rest \<and> book = Scan r)"
  by (auto simp: GetByFileHash_def split: option.splits list.splits)

lemma contains_duplicate_key:
  "strings_Contains duplicate_key_message ''duplicate key value violates unique constraint''"
  by (simp add: duplicate_key_message_def)

lemma Store_duplicate:
  assumes "list_ex (\<lambda>r. koreader_partial_md5 r = DocumentID book) tbl"
  shows "Store None tbl book = (Some (Wrapf ''BookDatabaseRepo - Store - r.Pool.Exec'' ErrBookAlreadyExists), tbl)"
  using assms by (simp add: Store_def Exec_insert_def insert_args_def contains_duplicate_key)

lemma Store_duplicate_keeps:
  assumes "list_ex (\<lambda>r. koreader_partial_md5 r = DocumentID book) tbl"
  shows "snd (Store fault tbl book) = tbl"
  using assms by (cases fault) (simp_all add: Store_def Exec_insert_def insert_args_def contains_duplicate_key)

lemma Store_cases:
  "(\<exists>err. Store fault tbl book = (Some err, tbl)) \<or> Store fault tbl book = (None, tbl @ [insert_args book])"
  by (cases fault) (simp_all add: Store_def Exec_insert_def contains_duplicate_key)

lemma storage_Write_fails:
  "storage_Write (Some e) content src dst w = (Some e, logged (Call_StorageWrite src dst) w)"
  by (simp add: storage_Write_def)

lemma storage_Write_succeeds:
  "storage_Write None content src dst w =
     (None, (logged (Call_StorageWrite src dst) w)\<lparr>blobs := (blobs w)(dst \<mapsto> content)\<rparr>)"
  by (simp add: storage_Write_def logged_simps)

lemma writeCover_effect:
  assumes "writeCover env cover bookID w = ((coverPath, err), w')"
  shows "catalog w' = catalog w \<and> dom (blobs w) \<subseteq> dom (blobs w') \<and>
         (coverPath = [] \<or> coverPath \<in> dom (blobs w')) \<and>
         (\<exists>cs. calls w' = calls w @ cs)"
  using assms
  by (auto simp: writeCover_def Let_def logged_simps storage_Write_def
      split: if_splits sum.splits option.splits prod.splits)

lemma ingest_extract_fails:
  assumes "env_ExtractBookMetadata env = Inl e"
  shows "StoreBook_ingest env tempFile h w =
     ((Book_zero, Some (Wrapf ''BookShelf - StoreBook - exractMetadata'' e)),
      logged (Call_ExtractBookMetadata (file_Name tempFile)) w)"
  using assms by (simp add: StoreBook_ingest_def)

lemma ingest_unknown_format:
  assumes "env_ExtractBookMetadata env = Inr m" and "meta_Format m = []"
  shows "StoreBook_ingest env tempFile h w =
     ((Book_zero, Some (New ''BookShelf - StoreBook - unknown file format'')),
      logged (Call_ExtractBookMetadata (file_Name tempFile)) w)"
  using assms by (simp add: StoreBook_ingest_def)

lemma ingest_write_fails:
  assumes "env_ExtractBookMetadata env = Inr m" and "meta_Format m \<noteq> []"
      and "env_Write_fault env = Some e"
  shows "StoreBook_ingest env tempFile h w =
     ((Book_zero, Some (Wrapf ''BookShelf - StoreBook - s.storage.Write'' e)),
      logged (Call_StorageWrite (file_Name tempFile)
          (Format_date (env_Now env) @ ''/'' @ env_uuid env @ ''.'' @ meta_Format m))
        (logged (Call_ExtractBookMetadata (file_Name tempFile)) w))"
  using assms by (simp add: StoreBook_ingest_def storage_Write_fails)

lemma ingest_written:
  assumes "env_ExtractBookMetadata env = Inr m" and "meta_Format m \<noteq> []"
      and "env_Write_fault env = None"
      and "writeCover env (meta_Cover m) (env_uuid env) (after_primary_write env tempFile m w) =
             ((coverPath, cerr), w3)"
  shows "StoreBook_ingest env tempFile h w =
     (case Store (env_Store_fault env) (catalog w3) (assembled_book env m h coverPath) of
        (Some err, tbl') \<Rightarrow>
          ((Book_zero, Some (Wrapf ''BookShelf - StoreBook - s.repo.Store'' err)),
           (logged (Call_Store (assembled_book env m h coverPath)) w3)\<lparr>catalog := tbl'\<rparr>)
      | (None, tbl') \<Rightarrow>
          ((assembled_book env m h coverPath, None),
           (logged (Call_Store (assembled_book env m h coverPath)) w3)\<lparr>catalog := tbl'\<rparr>))"
  using assms
  by (simp add: StoreBook_ingest_def storage_Write_succeeds logged_simps repo_Store_def Let_def
      split: prod.splits option.splits)

lemma StoreBook_found:
  assumes "env_PartialMD5 env = Inr h"
      and "GetByFileHash (env_GetByFileHash_fault env) (catalog w) h = (existing, None)"
  shows "StoreBook env tempFile name w =
     ((existing, Some ErrBookAlreadyExists),
      logged (Call_GetByFileHash h) (logged (Call_PartialMD5 (file_Name tempFile)) w))"
  using assms by (simp add: StoreBook_def repo_GetByFileHash_def logged_simps)

lemma StoreBook_not_found:
  assumes "env_PartialMD5 env = Inr h"
      and "snd (GetByFileHash (env_GetByFileHash_fault env) (catalog w) h) = Some e"
  shows "StoreBook env tempFile name w =
     StoreBook_ingest env tempFile h
       (logged (Call_GetByFileHash h) (logged (Call_PartialMD5 (file_Name tempFile)) w))"
  using assms
  by (cases "GetByFileHash (env_GetByFileHash_fault env) (catalog w) h")
     (simp add: StoreBook_def repo_GetByFileHash_def logged_simps)

lemma StoreBook_md5_fails:
  assumes "env_PartialMD5 env = Inl e"
  shows "StoreBook env tempFile name w =
     ((Book_zero, Some (Wrapf ''BookShelf - StoreBook - PartialMD5'' e)),
      logged (Call_PartialMD5 (file_Name tempFile)) w)"
  using assms by (simp add: StoreBook_def)

text \<open>Every run of the ingestion: what it returns and what it leaves behind.\<close>

lemma ingest_outcome:
  "(\<exists>e. fst (StoreBook_ingest env tempFile h w) = (Book_zero, Some e) \<and>
        catalog (snd (StoreBook_ingest env tempFile h w)) = catalog w) \<or>
   (\<exists>book. fst (StoreBook_ingest env tempFile h w) = (book, None) \<and>
        DocumentID book = h \<and>
        Store (env_Store_fault env) (catalog w) book = (None, catalog w @ [insert_args book]) \<and>
        catalog (snd (StoreBook_ingest env tempFile h w)) = catalog w @ [insert_args book] \<and>
        FilePath book \<in> dom (blobs (snd (StoreBook_ingest env tempFile h w))) \<and>
        (CoverPath book = [] \<or> CoverPath book \<in> dom (blobs (snd (StoreBook_ingest env tempFile h w)))))"
proof (cases "env_ExtractBookMetadata env")
  case (Inl e)
  then show ?thesis by (simp add: ingest_extract_fails logged_simps)
next
  case (Inr m)
  show ?thesis
  proof (cases "meta_Format m = []")
    case True
    with Inr show ?thesis by (simp add: ingest_unknown_format logged_simps)
  next
    case fmt: False
    show ?thesis
    proof (cases "env_Write_fault env")
      case (Some e)
      with Inr fmt show ?thesis by (simp add: ingest_write_fails logged_simps)
    next
      case None
      obtain coverPath cerr w3 where wc:
        "writeCover env (meta_Cover m) (env_uuid env) (after_primary_write env tempFile m w) =
           ((coverPath, cerr), w3)"
        by (metis prod.exhaust)
      from writeCover_effect[OF wc]
      have cat: "catalog w3 = catalog w"
        and path: "storagepath_of env m \<in> dom (blobs w3)"
        and cover: "coverPath = [] \<or> coverPath \<in> dom (blobs w3)"
        by (auto simp: logged_simps)
      note run = ingest_written[OF Inr fmt None wc, of h]
      from Store_cases[of "env_Store_fault env" "catalog w" "assembled_book env m h coverPath"]
      show ?thesis
      proof
        assume "\<exists>err. Store (env_Store_fault env) (catalog w) (assembled_book env m h coverPath) =
                  (Some err, catalog w)"
        then show ?thesis using run cat by (auto simp: logged_simps)
      next
        assume "Store (env_Store_fault env) (catalog w) (assembled_book env m h coverPath) =
                  (None, catalog w @ [insert_args (assembled_book env m h coverPath)])"
        then show ?thesis using run cat path cover by (auto simp: logged_simps)
      qed
    qed
  qed
qed

lemma StoreBook_outcome:
  "catalog (snd (StoreBook env tempFile name w)) = catalog w \<or>
   (\<exists>book. fst (StoreBook env tempFile name w) = (book, None) \<and>
        catalog (snd (StoreBook env tempFile name w)) = catalog w @ [insert_args book] \<and>
        FilePath book \<in> dom (blobs (snd (StoreBook env tempFile name w))) \<and>
        (CoverPath book = [] \<or> CoverPath book \<in> dom (blobs (snd (StoreBook env tempFile name w)))))"
proof (cases "env_PartialMD5 env")
  case (Inl e)
  then show ?thesis by (simp add: StoreBook_md5_fails logged_simps)
next
  case (Inr h)
  obtain found err where look: "GetByFileHash (env_GetByFileHash_fault env) (catalog w) h = (found, err)"
    by (metis prod.exhaust)
  show ?thesis
  proof (cases err)
    case None
    with Inr look show ?thesis by (simp add: StoreBook_found logged_simps)
  next
    case (Some e)
    with look have "snd (GetByFileHash (env_GetByFileHash_fault env) (catalog w) h) = Some e" by simp
    from StoreBook_not_found[OF Inr this]
    have eq: "StoreBook env tempFile name w = StoreBook_ingest env tempFile h (after_dedup tempFile h w)" .
    from ingest_outcome[of env tempFile h "after_dedup tempFile h w"]
    show ?thesis unfolding eq by (auto simp: logged_simps)
  qed
qed

lemma StoreBook_no_second_row:
  assumes "env_PartialMD5 env = Inr h"
      and "list_ex (\<lambda>r. koreader_partial_md5 r = h) (catalog w)"
  shows "catalog (snd (StoreBook env tempFile name w)) = catalog w"
proof -
  obtain found err where look: "GetByFileHash (env_GetByFileHash_fault env) (catalog w) h = (found, err)"
    by (metis prod.exhaust)
  show ?thesis
  proof (cases err)
    case None
    with assms look show ?thesis by (simp add: StoreBook_found logged_simps)
  next
    case (Some e)
    with look have "snd (GetByFileHash (env_GetByFileHash_fault env) (catalog w) h) = Some e" by simp
    from StoreBook_not_found[OF assms(1) this]
    have eq: "StoreBook env tempFile name w = StoreBook_ingest env tempFile h (after_dedup tempFile h w)" .
    have "\<not> (\<exists>book. DocumentID book = h \<and>
        Store (env_Store_fault env) (catalog w) book = (None, catalog w @ [insert_args book]))"
    proof
      assume "\<exists>book. DocumentID book = h \<and>
        Store (env_Store_fault env) (catalog w) book = (None, catalog w @ [insert_args book])"
      then obtain book where "DocumentID book = h"
        and "Store (env_Store_fault env) (catalog w) book = (None, catalog w @ [insert_args book])"
        by blast
      with Store_duplicate_keeps[of book "catalog w" "env_Store_fault env"] assms(2)
      show False by simp
    qed
    with ingest_outcome[of env tempFile h "after_dedup tempFile h w"]
    show ?thesis unfolding eq by (auto simp: logged_simps)
  qed
qed

lemma ingest_after_write:
  assumes ex: "env_ExtractBookMetadata env = Inr m" and fmt: "meta_Format m \<noteq> []"
      and wr: "env_Write_fault env = None"
  shows "\<exists>coverPath cover_calls.
           calls (snd (StoreBook_ingest env tempFile h w)) =
             calls w @ [Call_ExtractBookMetadata (file_Name tempFile),
                        Call_StorageWrite (file_Name tempFile) (storagepath_of env m)] @
             cover_calls @ [Call_Store (assembled_book env m h coverPath)] \<and>
           storagepath_of env m \<in> dom (blobs (snd (StoreBook_ingest env tempFile h w))) \<and>
           (\<forall>err. fst (Store (env_Store_fault env) (catalog w) (assembled_book env m h coverPath)) = Some err \<longrightarrow>
              fst (StoreBook_ingest env tempFile h w) =
                (Book_zero, Some (Wrapf ''BookShelf - StoreBook - s.repo.Store'' err)) \<and>
              catalog (snd (StoreBook_ingest env tempFile h w)) = catalog w) \<and>
           (fst (Store (env_Store_fault env) (catalog w) (assembled_book env m h coverPath)) = None \<longrightarrow>
              fst (StoreBook_ingest env tempFile h w) = (assembled_book env m h coverPath, None) \<and>
              catalog (snd (StoreBook_ingest env tempFile h w)) =
                catalog w @ [insert_args (assembled_book env m h coverPath)])"
proof -
  obtain coverPath cerr w3 where wc:
    "writeCover env (meta_Cover m) (env_uuid env) (after_primary_write env tempFile m w) =
       ((coverPath, cerr), w3)"
    by (metis prod.exhaust)
  from writeCover_effect[OF wc] obtain cs
    where cat: "catalog w3 = catalog w"
      and path: "storagepath_of env m \<in> dom (blobs w3)"
      and cs: "calls w3 = calls (after_primary_write env tempFile m w) @ cs"
    by (auto simp: logged_simps)
  note run = ingest_written[OF ex fmt wr wc, of h]
  from Store_cases[of "env_Store_fault env" "catalog w" "assembled_book env m h coverPath"]
  have "calls (snd (StoreBook_ingest env tempFile h w)) =
             calls w @ [Call_ExtractBookMetadata (file_Name tempFile),
                        Call_StorageWrite (file_Name tempFile) (storagepath_of env m)] @
             cs @ [Call_Store (assembled_book env m h coverPath)] \<and>
           storagepath_of env m \<in> dom (blobs (snd (StoreBook_ingest env tempFile h w))) \<and>
           (\<forall>err. fst (Store (env_Store_fault env) (catalog w) (assembled_book env m h coverPath)) = Some err \<longrightarrow>
              fst (StoreBook_ingest env tempFile h w) =
                (Book_zero, Some (Wrapf ''BookShelf - StoreBook - s.repo.Store'' err)) \<and>
              catalog (snd (StoreBook_ingest env tempFile h w)) = catalog w) \<and>
           (fst (Store (env_Store_fault env) (catalog w) (assembled_book env m h coverPath)) = None \<longrightarrow>
              fst (StoreBook_ingest env tempFile h w) = (assembled_book env m h coverPath, None) \<and>
              catalog (snd (StoreBook_ingest env tempFile h w)) =
                catalog w @ [insert_args (assembled_book env m h coverPath)])"
  proof
    assume "\<exists>err. Store (env_Store_fault env) (catalog w) (assembled_book env m h coverPath) =
              (Some err, catalog w)"
    then show ?thesis using run cat path cs by (auto simp: logged_simps)
  next
    assume "Store (env_Store_fault env) (catalog w) (assembled_book env m h coverPath) =
              (None, catalog w @ [insert_args (assembled_book env m h coverPath)])"
    then show ?thesis using run cat path cs by (auto simp: logged_simps)
  qed
  then show ?thesis by (intro exI[of _ coverPath] exI[of _ cs])
qed

lemma find_filter:
  assumes "find P xs = Some r"
  shows "\<exists>rest. filter P xs = r # rest"
  using assms by (induction xs) (auto split: if_splits)

lemma list_ex_find:
  assumes "list_ex P xs"
  shows "\<exists>r. find P xs = Some r \<and> P r"
  using assms by (induction xs) auto

lemma GetByFileHash_first:
  assumes "find (\<lambda>r. koreader_partial_md5 r = h) tbl = Some r"
  shows "GetByFileHash None tbl h = (Scan r, None)"
proof -
  from find_filter[OF assms] obtain rest
    where "filter (\<lambda>r. koreader_partial_md5 r = h) tbl = r # rest" ..
  then show ?thesis by (simp add: GetByFileHash_def)
qed

lemma GetByFileHash_error_form:
  assumes "snd (GetByFileHash fault tbl h) = Some e"
  shows "\<exists>x. e = Wrapf ''BookDatabaseRepo - GetByFileHash - r.Pool.QueryRow'' x"
  using assms by (auto simp: GetByFileHash_def split: option.splits list.splits)

lemma writeCover_ignores_lookup:
  "writeCover (env\<lparr>env_GetByFileHash_fault := f\<rparr>) cover bookID w = writeCover env cover bookID w"
  by (simp add: writeCover_def Let_def split: sum.splits option.splits prod.splits)

lemma ingest_ignores_lookup:
  "StoreBook_ingest (env\<lparr>env_GetByFileHash_fault := f\<rparr>) tempFile h w =
   StoreBook_ingest env tempFile h w"
  by (simp add: StoreBook_ingest_def writeCover_ignores_lookup Let_def
      split: sum.splits option.splits prod.splits)

lemma ingest_error_forms:
  "snd (fst (StoreBook_ingest env tempFile h w)) = None \<or>
   (\<exists>x. snd (fst (StoreBook_ingest env tempFile h w)) =
      Some (Wrapf ''BookShelf - StoreBook - exractMetadata'' x)) \<or>
   snd (fst (StoreBook_ingest env tempFile h w)) =
      Some (New ''BookShelf - StoreBook - unknown file format'') \<or>
   (\<exists>x. snd (fst (StoreBook_ingest env tempFile h w)) =
      Some (Wrapf ''BookShelf - StoreBook - s.storage.Write'' x)) \<or>
   (\<exists>x. snd (fst (StoreBook_ingest env tempFile h w)) =
      Some (Wrapf ''BookShelf - StoreBook - s.repo.Store'' x))"
proof (cases "env_ExtractBookMetadata env")
  case (Inl e)
  then show ?thesis by (simp add: ingest_extract_fails)
next
  case (Inr m)
  show ?thesis
  proof (cases "meta_Format m = []")
    case True
    with Inr show ?thesis by (simp add: ingest_unknown_format)
  next
    case fmt: False
    show ?thesis
    proof (cases "env_Write_fault env")
      case (Some e)
      with Inr fmt show ?thesis by (simp add: ingest_write_fails)
    next
      case None
      obtain coverPath cerr w3 where wc:
        "writeCover env (meta_Cover m) (env_uuid env) (after_primary_write env tempFile m w) =
           ((coverPath, cerr), w3)"
        by (metis prod.exhaust)
      note run = ingest_written[OF Inr fmt None wc, of h]
      from Store_cases[of "env_Store_fault env" "catalog w3" "assembled_book env m h coverPath"]
      show ?thesis
      proof
        assume "\<exists>err. Store (env_Store_fault env) (catalog w3) (assembled_book env m h coverPath) =
                  (Some err, catalog w3)"
        then show ?thesis using run by auto
      next
        assume "Store (env_Store_fault env) (catalog w3) (assembled_book env m h coverPath) =
                  (None, catalog w3 @ [insert_args (assembled_book env m h coverPath)])"
        then show ?thesis using run by simp
      qed
    qed
  qed
qed

lemma ingest_calls_prefix:
  "\<exists>rest. calls (snd (StoreBook_ingest env tempFile h w)) =
     calls w @ [Call_ExtractBookMetadata (file_Name tempFile)] @ rest"
proof (cases "env_ExtractBookMetadata env")
  case (Inl e)
  then show ?thesis by (simp add: ingest_extract_fails logged_simps)
next
  case (Inr m)
  show ?thesis
  proof (cases "meta_Format m = []")
    case True
    with Inr show ?thesis by (simp add: ingest_unknown_format logged_simps)
  next
    case fmt: False
    show ?thesis
    proof (cases "env_Write_fault env")
      case (Some e)
      with Inr fmt show ?thesis by (simp add: ingest_write_fails logged_simps)
    next
      case None
      from ingest_after_write[OF Inr fmt None, of tempFile h w]
      obtain coverPath cover_calls where
        "calls (snd (StoreBook_ingest env tempFile h w)) =
             calls w @ [Call_ExtractBookMetadata (file_Name tempFile),
                        Call_StorageWrite (file_Name tempFile) (storagepath_of env m)] @
             cover_calls @ [Call_Store (assembled_book env m h coverPath)]"
        by blast
      then show ?thesis by simp
    qed
  qed
qed

lemma StoreBook_ignores_lookup_error:
  assumes md5: "env_PartialMD5 env = Inr h"
      and e: "snd (GetByFileHash (env_GetByFileHash_fault env) (catalog w) h) = Some e"
      and e': "snd (GetByFileHash fault' (catalog w) h) = Some e'"
  shows "StoreBook (env\<lparr>env_GetByFileHash_fault := fault'\<rparr>) tempFile name w =
         StoreBook env tempFile name w"
proof -
  have md5': "env_PartialMD5 (env\<lparr>env_GetByFileHash_fault := fault'\<rparr>) = Inr h"
    using md5 by simp
  have look': "snd (GetByFileHash (env_GetByFileHash_fault (env\<lparr>env_GetByFileHash_fault := fault'\<rparr>))
      (catalog w) h) = Some e'"
    using e' by simp
  show ?thesis
    unfolding StoreBook_not_found[OF md5 e] StoreBook_not_found[OF md5' look']
    by (rule ingest_ignores_lookup)
qed

text \<open>
  C1, as stated, fails: the fingerprint \<open>h1\<close> has a record in the catalog, the
  dedup lookup fails, and \<open>StoreBook\<close> goes on: it calls the extractor, writes the
  blob and the cover, calls \<open>Store\<close>, and returns the empty book (not the existing
  record) with the error of \<open>Store\<close>.
\<close>

theorem StoreBook_duplicate_upload_counterexample:
  "list_ex (\<lambda>r. koreader_partial_md5 r = ''h1'') (catalog example_world) \<and>
   fst (StoreBook failing_lookup_env example_file ''dune.epub'' example_world) =
     (Book_zero, Some (Wrapf ''BookShelf - StoreBook - s.repo.Store''
        (Wrapf ''BookDatabaseRepo - Store - r.Pool.Exec'' ErrBookAlreadyExists))) \<and>
   ID Book_zero \<noteq> book_id example_row \<and>
   calls (snd (StoreBook failing_lookup_env example_file ''dune.epub'' example_world)) =
     [Call_PartialMD5 ''/tmp/upload-1'', Call_GetByFileHash ''h1'',
      Call_ExtractBookMetadata ''/tmp/upload-1'',
      Call_StorageWrite ''/tmp/upload-1'' ''2024/04/01/b2.epub'',
      Call_CreateTemp, Call_TempFileWrite,
      Call_StorageWrite ''/tmp/cover-1'' ''covers/b2.jpg'',
      Call_Store \<lparr>ID = ''b2'', Title = ''Emma'', Author = ''Austen'', Publisher = ''Murray'',
        Year = 0, CreatedAt = later_time, UpdatedAt = later_time, ISBN = [],
        DocumentID = ''h1'', FilePath = ''2024/04/01/b2.epub'', Format = ''epub'',
        CoverPath = ''covers/b2.jpg''\<rparr>]"
  by code_simp

text \<open>
  C1, amended. For an upload with fingerprint \<open>h\<close> that has a record in the catalog:
  when the dedup lookup answers, \<open>StoreBook\<close> returns the first row with that
  fingerprint, column by column as the repository reads it, together with
  \<open>ErrBookAlreadyExists\<close>, having called nothing but the fingerprint and the lookup
  (no extraction, no write), catalog and blobs as they were. And in every run, also one
  whose lookup fails, the catalog is the same after \<open>StoreBook\<close>: a \<open>Store\<close> of a
  book with that fingerprint, which the backend executes, gives an error that
  \<open>errors.Is\<close> recognises as \<open>ErrBookAlreadyExists\<close>, and inserts nothing.
\<close>

theorem StoreBook_duplicate_upload:
  assumes "env_PartialMD5 env = Inr h"
  shows "(env_GetByFileHash_fault env = None \<longrightarrow>
          list_ex (\<lambda>r. koreader_partial_md5 r = h) (catalog w) \<longrightarrow>
            (\<exists>r. find (\<lambda>r. koreader_partial_md5 r = h) (catalog w) = Some r \<and>
               StoreBook env tempFile name w =
                 ((\<lparr>ID = book_id r, Title = title r, Author = author r, Publisher = publisher r,
                    Year = year r, CreatedAt = created_at r, UpdatedAt = updated_at r,
                    ISBN = isbn r, DocumentID = h, FilePath = storage_file_path r,
                    Format = [], CoverPath = storage_cover_path r\<rparr>,
                   Some ErrBookAlreadyExists),
                  after_dedup tempFile h w))) \<and>
         (list_ex (\<lambda>r. koreader_partial_md5 r = h) (catalog w) \<longrightarrow>
            catalog (snd (StoreBook env tempFile name w)) = catalog w \<and>
            (\<forall>book. DocumentID book = h \<longrightarrow>
               Store None (catalog w) book =
                 (Some (Wrapf ''BookDatabaseRepo - Store - r.Pool.Exec'' ErrBookAlreadyExists),
                  catalog w) \<and>
               errors_Is (Wrapf ''BookDatabaseRepo - Store - r.Pool.Exec'' ErrBookAlreadyExists)
                 ErrBookAlreadyExists))"
proof (intro conjI impI allI)
  assume nf: "env_GetByFileHash_fault env = None"
    and ex: "list_ex (\<lambda>r. koreader_partial_md5 r = h) (catalog w)"
  from list_ex_find[OF ex] obtain r
    where r: "find (\<lambda>r. koreader_partial_md5 r = h) (catalog w) = Some r"
      and hr: "koreader_partial_md5 r = h"
    by blast
  from GetByFileHash_first[OF r] nf
  have "GetByFileHash (env_GetByFileHash_fault env) (catalog w) h = (Scan r, None)" by simp
  from StoreBook_found[OF assms this]
  have "StoreBook env tempFile name w =
      ((\<lparr>ID = book_id r, Title = title r, Author = author r, Publisher = publisher r,
         Year = year r, CreatedAt = created_at r, UpdatedAt = updated_at r,
         ISBN = isbn r, DocumentID = h, FilePath = storage_file_path r,
         Format = [], CoverPath = storage_cover_path r\<rparr>,
        Some ErrBookAlreadyExists),
       after_dedup tempFile h w)"
    using hr by (simp add: Scan_def)
  with r show "\<exists>r. find (\<lambda>r. koreader_partial_md5 r = h) (catalog w) = Some r \<and>
      StoreBook env tempFile name w =
        ((\<lparr>ID = book_id r, Title = title r, Author = author r, Publisher = publisher r,
           Year = year r, CreatedAt = created_at r, UpdatedAt = updated_at r,
           ISBN = isbn r, DocumentID = h, FilePath = storage_file_path r,
           Format = [], CoverPath = storage_cover_path r\<rparr>,
          Some ErrBookAlreadyExists),
         after_dedup tempFile h w)"
    by blast
next
  assume "list_ex (\<lambda>r. koreader_partial_md5 r = h) (catalog w)"
  with assms show "catalog (snd (StoreBook env tempFile name w)) = catalog w"
    by (rule StoreBook_no_second_row)
next
  fix book :: Book
  assume "list_ex (\<lambda>r. koreader_partial_md5 r = h) (catalog w)" and "DocumentID book = h"
  then show "Store None (catalog w) book =
      (Some (Wrapf ''BookDatabaseRepo - Store - r.Pool.Exec'' ErrBookAlreadyExists), catalog w)"
    by (simp add: Store_duplicate)
next
  show "errors_Is (Wrapf ''BookDatabaseRepo - Store - r.Pool.Exec'' ErrBookAlreadyExists)
      ErrBookAlreadyExists"
    by simp
qed

theorem StoreBook_duplicate_upload_witness:
  "StoreBook (example_store_env\<lparr>env_PartialMD5 := Inr ''h1''\<rparr>) example_file ''dune.epub''
       example_world =
     ((\<lparr>ID = ''b1'', Title = ''Dune'', Author = ''Herbert'', Publisher = ''Ace'',
        Year = 1965, CreatedAt = example_time, UpdatedAt = example_time, ISBN = ''ISBN123'',
        DocumentID = ''h1'', FilePath = ''2024/03/09/b1.epub'', Format = [],
        CoverPath = []\<rparr>, Some ErrBookAlreadyExists),
      after_dedup example_file ''h1'' example_world) \<and>
   catalog (snd (StoreBook failing_lookup_env example_file ''dune.epub'' example_world)) =
     catalog example_world"
proof -
  have md5: "env_PartialMD5 (example_store_env\<lparr>env_PartialMD5 := Inr ''h1''\<rparr>) = Inr ''h1''"
    by simp
  have md5': "env_PartialMD5 failing_lookup_env = Inr ''h1''"
    by (simp add: failing_lookup_env_def)
  have nf: "env_GetByFileHash_fault (example_store_env\<lparr>env_PartialMD5 := Inr ''h1''\<rparr>) = None"
    by (simp add: example_store_env_def)
  have ex: "list_ex (\<lambda>r. koreader_partial_md5 r = ''h1'') (catalog example_world)"
    by (simp add: example_world_def example_row_def)
  have first: "find (\<lambda>r. koreader_partial_md5 r = ''h1'') (catalog example_world) = Some example_row"
    by (simp add: example_world_def example_row_def)
  from StoreBook_duplicate_upload[OF md5, where w = example_world and tempFile = example_file
      and name = "''dune.epub''"] nf ex first
  have "StoreBook (example_store_env\<lparr>env_PartialMD5 := Inr ''h1''\<rparr>) example_file ''dune.epub''
       example_world =
     ((\<lparr>ID = book_id example_row, Title = title example_row, Author = author example_row,
        Publisher = publisher example_row, Year = year example_row,
        CreatedAt = created_at example_row, UpdatedAt = updated_at example_row,
        ISBN = isbn example_row, DocumentID = ''h1'',
        FilePath = storage_file_path example_row, Format = [],
        CoverPath = storage_cover_path example_row\<rparr>, Some ErrBookAlreadyExists),
      after_dedup example_file ''h1'' example_world)"
    by auto
  then have a: "StoreBook (example_store_env\<lparr>env_PartialMD5 := Inr ''h1''\<rparr>) example_file
       ''dune.epub'' example_world =
     ((\<lparr>ID = ''b1'', Title = ''Dune'', Author = ''Herbert'', Publisher = ''Ace'',
        Year = 1965, CreatedAt = example_time, UpdatedAt = example_time, ISBN = ''ISBN123'',
        DocumentID = ''h1'', FilePath = ''2024/03/09/b1.epub'', Format = [],
        CoverPath = []\<rparr>, Some ErrBookAlreadyExists),
      after_dedup example_file ''h1'' example_world)"
    by (simp add: example_row_def)
  from StoreBook_duplicate_upload[OF md5', where w = example_world and tempFile = example_file
      and name = "''dune.epub''"] ex
  have b: "catalog (snd (StoreBook failing_lookup_env example_file ''dune.epub'' example_world)) =
     catalog example_world"
    by blast
  from a b show ?thesis by blast
qed

text \<open>
  C7. When the extractor gives an empty format, no run of \<open>StoreBook\<close> writes a blob
  or creates a row; and a run that reaches the extraction (the fingerprint is computed and
  the dedup lookup returns an error) fails with the "unknown file format" error, having
  called the fingerprint, the lookup and the extractor and nothing else.
\<close>

theorem StoreBook_unknown_format:
  assumes "env_ExtractBookMetadata env = Inr m" and "meta_Format m = []"
  shows "blobs (snd (StoreBook env tempFile name w)) = blobs w \<and>
         catalog (snd (StoreBook env tempFile name w)) = catalog w \<and>
         (\<forall>h e. env_PartialMD5 env = Inr h \<longrightarrow>
            snd (GetByFileHash (env_GetByFileHash_fault env) (catalog w) h) = Some e \<longrightarrow>
            StoreBook env tempFile name w =
              ((Book_zero, Some (New ''BookShelf - StoreBook - unknown file format'')),
               logged (Call_ExtractBookMetadata (file_Name tempFile)) (after_dedup tempFile h w)))"
proof -
  have reach: "StoreBook env tempFile name w =
      ((Book_zero, Some (New ''BookShelf - StoreBook - unknown file format'')),
       logged (Call_ExtractBookMetadata (file_Name tempFile)) (after_dedup tempFile h w))"
    if "env_PartialMD5 env = Inr h"
      and "snd (GetByFileHash (env_GetByFileHash_fault env) (catalog w) h) = Some e" for h e
    using StoreBook_not_found[OF that] assms by (simp add: ingest_unknown_format)
  have "blobs (snd (StoreBook env tempFile name w)) = blobs w \<and>
        catalog (snd (StoreBook env tempFile name w)) = catalog w"
  proof (cases "env_PartialMD5 env")
    case (Inl e)
    then show ?thesis by (simp add: StoreBook_md5_fails logged_simps)
  next
    case (Inr h)
    obtain found err where look:
      "GetByFileHash (env_GetByFileHash_fault env) (catalog w) h = (found, err)"
      by (metis prod.exhaust)
    show ?thesis
    proof (cases err)
      case None
      with Inr look show ?thesis by (simp add: StoreBook_found logged_simps)
    next
      case (Some e)
      with look have "snd (GetByFileHash (env_GetByFileHash_fault env) (catalog w) h) = Some e"
        by simp
      from reach[OF Inr this] show ?thesis by (simp add: logged_simps)
    qed
  qed
  with reach show ?thesis by blast
qed

theorem StoreBook_unknown_format_witness:
  "StoreBook (example_store_env\<lparr>env_ExtractBookMetadata := Inr (example_meta\<lparr>meta_Format := []\<rparr>)\<rparr>)
       example_file ''notes.bin'' example_world =
     ((Book_zero, Some (New ''BookShelf - StoreBook - unknown file format'')),
      logged (Call_ExtractBookMetadata (file_Name example_file))
        (after_dedup example_file ''h2'' example_world)) \<and>
   blobs (snd (StoreBook
       (example_store_env\<lparr>env_ExtractBookMetadata := Inr (example_meta\<lparr>meta_Format := []\<rparr>)\<rparr>)
       example_file ''notes.bin'' example_world)) = blobs example_world"
proof -
  have ex: "env_ExtractBookMetadata
      (example_store_env\<lparr>env_ExtractBookMetadata := Inr (example_meta\<lparr>meta_Format := []\<rparr>)\<rparr>) =
      Inr (example_meta\<lparr>meta_Format := []\<rparr>)"
    by simp
  have fmt: "meta_Format (example_meta\<lparr>meta_Format := []\<rparr>) = []" by simp
  have md5: "env_PartialMD5
      (example_store_env\<lparr>env_ExtractBookMetadata := Inr (example_meta\<lparr>meta_Format := []\<rparr>)\<rparr>) =
      Inr ''h2''"
    by (simp add: example_store_env_def)
  have miss: "snd (GetByFileHash (env_GetByFileHash_fault
      (example_store_env\<lparr>env_ExtractBookMetadata := Inr (example_meta\<lparr>meta_Format := []\<rparr>)\<rparr>))
      (catalog example_world) ''h2'') =
      Some (Wrapf ''BookDatabaseRepo - GetByFileHash - r.Pool.QueryRow'' ErrNoRows)"
    by (simp add: GetByFileHash_def example_store_env_def example_world_def example_row_def)
  from StoreBook_unknown_format[OF ex fmt, where tempFile = example_file
      and name = "''notes.bin''" and w = example_world] md5 miss
  show ?thesis by blast
qed

text \<open>
  C10. Once the fingerprint \<open>h\<close> is computed: whenever \<open>GetByFileHash\<close> returns an
  error, whatever the error, \<open>StoreBook\<close> goes on to the ingestion (its next call is
  the extractor), the error it returns, if any, is neither the lookup's nor
  \<open>ErrBookAlreadyExists\<close>, and its result and effects are those of the same run with
  any other failing lookup, the not-found one included; a failure of the backend during
  the lookup is such an error, also when the catalog holds a row with the fingerprint; and
  a lookup that returns no error gives the early return with \<open>ErrBookAlreadyExists\<close>.
\<close>

theorem StoreBook_dedup_ignores_errors:
  assumes "env_PartialMD5 env = Inr h"
  shows "(\<forall>e. snd (GetByFileHash (env_GetByFileHash_fault env) (catalog w) h) = Some e \<longrightarrow>
            (\<exists>rest. calls (snd (StoreBook env tempFile name w)) =
               calls w @ [Call_PartialMD5 (file_Name tempFile), Call_GetByFileHash h,
                          Call_ExtractBookMetadata (file_Name tempFile)] @ rest) \<and>
            snd (fst (StoreBook env tempFile name w)) \<noteq> Some e \<and>
            snd (fst (StoreBook env tempFile name w)) \<noteq> Some ErrBookAlreadyExists \<and>
            (\<forall>fault' e'. snd (GetByFileHash fault' (catalog w) h) = Some e' \<longrightarrow>
               StoreBook (env\<lparr>env_GetByFileHash_fault := fault'\<rparr>) tempFile name w =
               StoreBook env tempFile name w) \<and>
            StoreBook env tempFile name w =
              StoreBook_ingest env tempFile h (after_dedup tempFile h w)) \<and>
         (\<forall>msg. env_GetByFileHash_fault env = Some msg \<longrightarrow>
            snd (GetByFileHash (env_GetByFileHash_fault env) (catalog w) h) =
              Some (Wrapf ''BookDatabaseRepo - GetByFileHash - r.Pool.QueryRow'' (Backend msg))) \<and>
         (\<forall>found. GetByFileHash (env_GetByFileHash_fault env) (catalog w) h = (found, None) \<longrightarrow>
            StoreBook env tempFile name w =
              ((found, Some ErrBookAlreadyExists), after_dedup tempFile h w))"
proof (intro conjI allI impI)
  fix e
  assume e: "snd (GetByFileHash (env_GetByFileHash_fault env) (catalog w) h) = Some e"
  have eq: "StoreBook env tempFile name w =
      StoreBook_ingest env tempFile h (after_dedup tempFile h w)"
    using assms e by (rule StoreBook_not_found)
  show "StoreBook env tempFile name w =
      StoreBook_ingest env tempFile h (after_dedup tempFile h w)"
    by (rule eq)
  from ingest_calls_prefix[of env tempFile h "after_dedup tempFile h w"]
  show "\<exists>rest. calls (snd (StoreBook env tempFile name w)) =
               calls w @ [Call_PartialMD5 (file_Name tempFile), Call_GetByFileHash h,
                          Call_ExtractBookMetadata (file_Name tempFile)] @ rest"
    unfolding eq by (simp add: logged_simps)
  from GetByFileHash_error_form[OF e] obtain x
    where x: "e = Wrapf ''BookDatabaseRepo - GetByFileHash - r.Pool.QueryRow'' x" ..
  from ingest_error_forms[of env tempFile h "after_dedup tempFile h w"]
  show "snd (fst (StoreBook env tempFile name w)) \<noteq> Some e"
    unfolding eq x by auto
  from ingest_error_forms[of env tempFile h "after_dedup tempFile h w"]
  show "snd (fst (StoreBook env tempFile name w)) \<noteq> Some ErrBookAlreadyExists"
    unfolding eq by auto
next
  fix e fault' e'
  assume "snd (GetByFileHash (env_GetByFileHash_fault env) (catalog w) h) = Some e"
    and "snd (GetByFileHash fault' (catalog w) h) = Some e'"
  with assms show "StoreBook (env\<lparr>env_GetByFileHash_fault := fault'\<rparr>) tempFile name w =
               StoreBook env tempFile name w"
    by (rule StoreBook_ignores_lookup_error)
next
  fix msg
  assume "env_GetByFileHash_fault env = Some msg"
  then show "snd (GetByFileHash (env_GetByFileHash_fault env) (catalog w) h) =
      Some (Wrapf ''BookDatabaseRepo - GetByFileHash - r.Pool.QueryRow'' (Backend msg))"
    by (simp add: GetByFileHash_def)
next
  fix found
  assume "GetByFileHash (env_GetByFileHash_fault env) (catalog w) h = (found, None)"
  with assms show "StoreBook env tempFile name w =
      ((found, Some ErrBookAlreadyExists), after_dedup tempFile h w)"
    by (rule StoreBook_found)
qed

theorem StoreBook_dedup_ignores_errors_witness:
  "(\<exists>rest. calls (snd (StoreBook failing_lookup_env example_file ''dune.epub'' example_world)) =
      calls example_world @ [Call_PartialMD5 (file_Name example_file), Call_GetByFileHash ''h1'',
                 Call_ExtractBookMetadata (file_Name example_file)] @ rest) \<and>
   snd (fst (StoreBook failing_lookup_env example_file ''dune.epub'' example_world)) \<noteq>
     Some (Wrapf ''BookDatabaseRepo - GetByFileHash - r.Pool.QueryRow''
            (Backend ''connection refused'')) \<and>
   StoreBook (failing_lookup_env\<lparr>env_GetByFileHash_fault := Some ''timeout''\<rparr>)
       example_file ''dune.epub'' example_world =
     StoreBook failing_lookup_env example_file ''dune.epub'' example_world \<and>
   fst (StoreBook failing_lookup_env example_file ''dune.epub'' example_world) =
     (Book_zero, Some (Wrapf ''BookShelf - StoreBook - s.repo.Store''
        (Wrapf ''BookDatabaseRepo - Store - r.Pool.Exec'' ErrBookAlreadyExists)))"
proof -
  have md5: "env_PartialMD5 failing_lookup_env = Inr ''h1''"
    by (simp add: failing_lookup_env_def)
  have e: "snd (GetByFileHash (env_GetByFileHash_fault failing_lookup_env) (catalog example_world)
      ''h1'') =
      Some (Wrapf ''BookDatabaseRepo - GetByFileHash - r.Pool.QueryRow''
             (Backend ''connection refused''))"
    by (simp add: failing_lookup_env_def GetByFileHash_def)
  have e': "snd (GetByFileHash (Some ''timeout'') (catalog example_world) ''h1'') =
      Some (Wrapf ''BookDatabaseRepo - GetByFileHash - r.Pool.QueryRow'' (Backend ''timeout''))"
    by (simp add: GetByFileHash_def)
  have run: "fst (StoreBook failing_lookup_env example_file ''dune.epub'' example_world) =
     (Book_zero, Some (Wrapf ''BookShelf - StoreBook - s.repo.Store''
        (Wrapf ''BookDatabaseRepo - Store - r.Pool.Exec'' ErrBookAlreadyExists)))"
    by code_simp
  from StoreBook_dedup_ignores_errors[OF md5, where w = example_world and tempFile = example_file
      and name = "''dune.epub''"] e e' run
  show ?thesis by blast
qed

text \<open>
  C6. In a run of \<open>StoreBook\<close> that reaches the primary blob write (the fingerprint
  is computed, the dedup lookup returns an error, the extractor gives a format): when the
  write fails, \<open>StoreBook\<close> returns that error and the catalog is as it was, \<open>Store\<close>
  not having been called; when the write succeeds, \<open>Store\<close> is called after it (and
  after the calls for the cover), the primary blob is in the storage, and \<open>StoreBook\<close>
  returns the error of \<open>Store\<close> with the catalog as it was when \<open>Store\<close> fails, and
  the book with its row appended when it succeeds. In every run, the catalog stays as it
  was or gains one row, whose storage path holds a blob and whose cover path is empty or
  holds a blob.
\<close>

theorem StoreBook_write_before_record:
  "(\<forall>h e0 m. env_PartialMD5 env = Inr h \<longrightarrow>
      snd (GetByFileHash (env_GetByFileHash_fault env) (catalog w) h) = Some e0 \<longrightarrow>
      env_ExtractBookMetadata env = Inr m \<longrightarrow> meta_Format m \<noteq> [] \<longrightarrow>
      (\<forall>e. env_Write_fault env = Some e \<longrightarrow>
         StoreBook env tempFile name w =
           ((Book_zero, Some (Wrapf ''BookShelf - StoreBook - s.storage.Write'' e)),
            logged (Call_StorageWrite (file_Name tempFile) (storagepath_of env m))
              (logged (Call_ExtractBookMetadata (file_Name tempFile)) (after_dedup tempFile h w))) \<and>
         catalog (snd (StoreBook env tempFile name w)) = catalog w) \<and>
      (env_Write_fault env = None \<longrightarrow>
         (\<exists>coverPath cover_calls.
            calls (snd (StoreBook env tempFile name w)) =
              calls w @ [Call_PartialMD5 (file_Name tempFile), Call_GetByFileHash h,
                         Call_ExtractBookMetadata (file_Name tempFile),
                         Call_StorageWrite (file_Name tempFile) (storagepath_of env m)] @
              cover_calls @ [Call_Store (assembled_book env m h coverPath)] \<and>
            storagepath_of env m \<in> dom (blobs (snd (StoreBook env tempFile name w))) \<and>
            (\<forall>err. fst (Store (env_Store_fault env) (catalog w) (assembled_book env m h coverPath)) = Some err \<longrightarrow>
               fst (StoreBook env tempFile name w) =
                 (Book_zero, Some (Wrapf ''BookShelf - StoreBook - s.repo.Store'' err)) \<and>
               catalog (snd (StoreBook env tempFile name w)) = catalog w) \<and>
            (fst (Store (env_Store_fault env) (catalog w) (assembled_book env m h coverPath)) = None \<longrightarrow>
               fst (StoreBook env tempFile name w) = (assembled_book env m h coverPath, None) \<and>
               catalog (snd (StoreBook env tempFile name w)) =
                 catalog w @ [insert_args (assembled_book env m h coverPath)])))) \<and>
   (catalog (snd (StoreBook env tempFile name w)) = catalog w \<or>
    (\<exists>book. fst (StoreBook env tempFile name w) = (book, None) \<and>
        catalog (snd (StoreBook env tempFile name w)) = catalog w @ [insert_args book] \<and>
        FilePath book \<in> dom (blobs (snd (StoreBook env tempFile name w))) \<and>
        (CoverPath book = [] \<or> CoverPath book \<in> dom (blobs (snd (StoreBook env tempFile name w))))))"
proof (intro conjI allI impI)
  fix h e0 m e
  assume md5: "env_PartialMD5 env = Inr h"
    and miss: "snd (GetByFileHash (env_GetByFileHash_fault env) (catalog w) h) = Some e0"
    and ex: "env_ExtractBookMetadata env = Inr m" and fmt: "meta_Format m \<noteq> []"
    and wr: "env_Write_fault env = Some e"
  show run: "StoreBook env tempFile name w =
           ((Book_zero, Some (Wrapf ''BookShelf - StoreBook - s.storage.Write'' e)),
            logged (Call_StorageWrite (file_Name tempFile) (storagepath_of env m))
              (logged (Call_ExtractBookMetadata (file_Name tempFile)) (after_dedup tempFile h w)))"
    using StoreBook_not_found[OF md5 miss] ingest_write_fails[OF ex fmt wr] by simp
  show "catalog (snd (StoreBook env tempFile name w)) = catalog w"
    unfolding run by (simp add: logged_simps)
next
  fix h e0 m
  assume md5: "env_PartialMD5 env = Inr h"
    and miss: "snd (GetByFileHash (env_GetByFileHash_fault env) (catalog w) h) = Some e0"
    and ex: "env_ExtractBookMetadata env = Inr m" and fmt: "meta_Format m \<noteq> []"
    and wr: "env_Write_fault env = None"
  have eq: "StoreBook env tempFile name w = StoreBook_ingest env tempFile h (after_dedup tempFile h w)"
    by (rule StoreBook_not_found[OF md5 miss])
  from ingest_after_write[OF ex fmt wr, of tempFile h "after_dedup tempFile h w"]
  show "\<exists>coverPath cover_calls.
            calls (snd (StoreBook env tempFile name w)) =
              calls w @ [Call_PartialMD5 (file_Name tempFile), Call_GetByFileHash h,
                         Call_ExtractBookMetadata (file_Name tempFile),
                         Call_StorageWrite (file_Name tempFile) (storagepath_of env m)] @
              cover_calls @ [Call_Store (assembled_book env m h coverPath)] \<and>
            storagepath_of env m \<in> dom (blobs (snd (StoreBook env tempFile name w))) \<and>
            (\<forall>err. fst (Store (env_Store_fault env) (catalog w) (assembled_book env m h coverPath)) = Some err \<longrightarrow>
               fst (StoreBook env tempFile name w) =
                 (Book_zero, Some (Wrapf ''BookShelf - StoreBook - s.repo.Store'' err)) \<and>
               catalog (snd (StoreBook env tempFile name w)) = catalog w) \<and>
            (fst (Store (env_Store_fault env) (catalog w) (assembled_book env m h coverPath)) = None \<longrightarrow>
               fst (StoreBook env tempFile name w) = (assembled_book env m h coverPath, None) \<and>
               catalog (snd (StoreBook env tempFile name w)) =
                 catalog w @ [insert_args (assembled_book env m h coverPath)])"
    unfolding eq by (simp add: logged_simps)
next
  show "catalog (snd (StoreBook env tempFile name w)) = catalog w \<or>
    (\<exists>book. fst (StoreBook env tempFile name w) = (book, None) \<and>
        catalog (snd (StoreBook env tempFile name w)) = catalog w @ [insert_args book] \<and>
        FilePath book \<in> dom (blobs (snd (StoreBook env tempFile name w))) \<and>
        (CoverPath book = [] \<or> CoverPath book \<in> dom (blobs (snd (StoreBook env tempFile name w)))))"
    by (rule StoreBook_outcome)
qed

lemma Store_backend_fault:
  assumes "\<not> strings_Contains msg ''duplicate key value violates unique constraint''"
  shows "Store (Some msg) tbl book =
     (Some (Wrapf ''BookDatabaseRepo - Store - r.Pool.Exec'' (Backend msg)), tbl)"
  using assms by (simp add: Store_def Exec_insert_def)

theorem StoreBook_write_before_record_witness:
  "StoreBook (example_store_env\<lparr>env_Write_fault := Some (Backend ''disk full'')\<rparr>)
       example_file ''emma.epub'' example_world =
     ((Book_zero, Some (Wrapf ''BookShelf - StoreBook - s.storage.Write'' (Backend ''disk full''))),
      logged (Call_StorageWrite (file_Name example_file)
          (storagepath_of (example_store_env\<lparr>env_Write_fault := Some (Backend ''disk full'')\<rparr>)
             example_meta))
        (logged (Call_ExtractBookMetadata (file_Name example_file))
           (after_dedup example_file ''h2'' example_world))) \<and>
   fst (StoreBook (example_store_env\<lparr>env_Store_fault := Some ''connection reset''\<rparr>)
       example_file ''emma.epub'' example_world) =
     (Book_zero, Some (Wrapf ''BookShelf - StoreBook - s.repo.Store''
        (Wrapf ''BookDatabaseRepo - Store - r.Pool.Exec'' (Backend ''connection reset'')))) \<and>
   storagepath_of (example_store_env\<lparr>env_Store_fault := Some ''connection reset''\<rparr>) example_meta
     \<in> dom (blobs (snd (StoreBook (example_store_env\<lparr>env_Store_fault := Some ''connection reset''\<rparr>)
           example_file ''emma.epub'' example_world))) \<and>
   catalog (snd (StoreBook (example_store_env\<lparr>env_Store_fault := Some ''connection reset''\<rparr>)
       example_file ''emma.epub'' example_world)) = catalog example_world"
proof -
  have miss: "snd (GetByFileHash None (catalog example_world) ''h2'') =
      Some (Wrapf ''BookDatabaseRepo - GetByFileHash - r.Pool.QueryRow'' ErrNoRows)"
    by (simp add: GetByFileHash_def example_world_def example_row_def)
  have fmt: "meta_Format example_meta \<noteq> []" by (simp add: example_meta_def)
  have no: "\<not> strings_Contains ''connection reset'' ''duplicate key value violates unique constraint''"
    by simp
  from StoreBook_write_before_record[where env = "example_store_env\<lparr>env_Write_fault := Some (Backend ''disk full'')\<rparr>"
      and w = example_world and tempFile = example_file and name = "''emma.epub''"] miss fmt
  have a: "StoreBook (example_store_env\<lparr>env_Write_fault := Some (Backend ''disk full'')\<rparr>)
       example_file ''emma.epub'' example_world =
     ((Book_zero, Some (Wrapf ''BookShelf - StoreBook - s.storage.Write'' (Backend ''disk full''))),
      logged (Call_StorageWrite (file_Name example_file)
          (storagepath_of (example_store_env\<lparr>env_Write_fault := Some (Backend ''disk full'')\<rparr>)
             example_meta))
        (logged (Call_ExtractBookMetadata (file_Name example_file))
           (after_dedup example_file ''h2'' example_world)))"
    by (simp add: example_store_env_def)
  from StoreBook_write_before_record[where env = "example_store_env\<lparr>env_Store_fault := Some ''connection reset''\<rparr>"
      and w = example_world and tempFile = example_file and name = "''emma.epub''"] miss fmt
  have "\<exists>coverPath.
      storagepath_of (example_store_env\<lparr>env_Store_fault := Some ''connection reset''\<rparr>) example_meta
        \<in> dom (blobs (snd (StoreBook (example_store_env\<lparr>env_Store_fault := Some ''connection reset''\<rparr>)
              example_file ''emma.epub'' example_world))) \<and>
      (\<forall>err. fst (Store (Some ''connection reset'') (catalog example_world)
                 (assembled_book (example_store_env\<lparr>env_Store_fault := Some ''connection reset''\<rparr>)
                    example_meta ''h2'' coverPath)) = Some err \<longrightarrow>
         fst (StoreBook (example_store_env\<lparr>env_Store_fault := Some ''connection reset''\<rparr>)
             example_file ''emma.epub'' example_world) =
           (Book_zero, Some (Wrapf ''BookShelf - StoreBook - s.repo.Store'' err)) \<and>
         catalog (snd (StoreBook (example_store_env\<lparr>env_Store_fault := Some ''connection reset''\<rparr>)
             example_file ''emma.epub'' example_world)) = catalog example_world)"
    by (simp add: example_store_env_def) blast
  then have b: "fst (StoreBook (example_store_env\<lparr>env_Store_fault := Some ''connection reset''\<rparr>)
       example_file ''emma.epub'' example_world) =
     (Book_zero, Some (Wrapf ''BookShelf - StoreBook - s.repo.Store''
        (Wrapf ''BookDatabaseRepo - Store - r.Pool.Exec'' (Backend ''connection reset'')))) \<and>
   storagepath_of (example_store_env\<lparr>env_Store_fault := Some ''connection reset''\<rparr>) example_meta
     \<in> dom (blobs (snd (StoreBook (example_store_env\<lparr>env_Store_fault := Some ''connection reset''\<rparr>)
           example_file ''emma.epub'' example_world))) \<and>
   catalog (snd (StoreBook (example_store_env\<lparr>env_Store_fault := Some ''connection reset''\<rparr>)
       example_file ''emma.epub'' example_world)) = catalog example_world"
    by (auto simp: Store_backend_fault[OF no])
  from a b show ?thesis by blast
qed

section \<open>Listing and searching\<close>

lemma like_match_percent: "like_match ''%'' s"
  by (induction s) simp_all

lemma like_match_percent_percent: "like_match ''%%'' s"
  by (cases s) (simp_all add: like_match_percent)

lemma to_lower_percent: "to_lower CHR ''%'' = CHR ''%''"
  by (simp add: to_lower_def)

lemma search_condition_empty: "search_condition ''%%'' r"
  by (simp add: search_condition_def ILIKE_def to_lower_percent like_match_percent_percent)

lemma filter_search_empty: "filter (search_condition ''%%'') tbl = tbl"
  using search_condition_empty by (induction tbl) simp_all

lemma scan_rows_fst: "fst (scan_rows ''Search'' env rows) = fst (scan_rows ''List'' env rows)"
  by (simp add: scan_rows_def split: list.splits option.splits)

lemma scan_rows_snd:
  "(snd (scan_rows ''Search'' env rows) = None) = (snd (scan_rows ''List'' env rows) = None)"
  by (simp add: scan_rows_def split: list.splits option.splits)

lemma Pool_Query_search_empty:
  "Pool_Query f (search_condition ''%%'') c d l off tbl = Pool_Query f (\<lambda>r. True) c d l off tbl"
  by (cases f) (simp_all add: Pool_Query_def filter_search_empty)

lemma List_valid:
  assumes "sortBy \<in> set sortable_columns" and "sortOrder = ''asc'' \<or> sortOrder = ''desc''"
      and "0 < sint page" and "0 < sint perPage" and "sint perPage \<le> 100"
  shows "List env tbl sortBy sortOrder page perPage =
     (case Pool_Query (q_Query_fault env) (\<lambda>r. True) sortBy sortOrder
                (sint perPage) (sint ((page - 1) * perPage)) tbl of
           Inl msg \<Rightarrow> ([], Some (Wrapf ''BookDatabaseRepo - List - r.Pool.Query'' (Backend msg)))
         | Inr rows \<Rightarrow> scan_rows ''List'' env rows)"
  using assms unfolding List_def Let_def by simp

text \<open>
  C5. With the empty query, and the same answers of the backend, \<open>Search\<close> returns
  the rows \<open>List\<close> returns, in the same order, for the same sort and pagination
  arguments, and fails exactly when \<open>List\<close> fails; \<open>CountSearch\<close> returns the
  number \<open>Count\<close> returns, and fails exactly when \<open>Count\<close> fails.
\<close>

theorem Search_empty_query_is_List:
  "fst (Search env tbl [] sortBy sortOrder page perPage) = fst (List env tbl sortBy sortOrder page perPage) \<and>
   (snd (Search env tbl [] sortBy sortOrder page perPage) = None \<longleftrightarrow>
    snd (List env tbl sortBy sortOrder page perPage) = None) \<and>
   fst (CountSearch fault tbl []) = fst (Count fault tbl) \<and>
   (snd (CountSearch fault tbl []) = None \<longleftrightarrow> snd (Count fault tbl) = None)"
proof -
  define so where "so = (if sortOrder = ''asc'' \<or> sortOrder = ''desc'' then sortOrder else ''desc'')"
  define sb where "sb = (if sortBy \<in> set sortable_columns then sortBy else ''created_at'')"
  define p where "p = (if sint page \<le> 0 then 1 else page)"
  define pp where "pp = (if sint perPage \<le> 0 \<or> sint perPage > 100 then 25 else perPage)"
  define Q where "Q = Pool_Query (q_Query_fault env) (\<lambda>r. True) sb so (sint pp) (sint ((p - 1) * pp)) tbl"
  have pat: "''%'' @ [] @ ''%'' = ''%%''" by simp
  have L: "List env tbl sortBy sortOrder page perPage =
      (case Q of
         Inl msg \<Rightarrow> ([], Some (Wrapf ''BookDatabaseRepo - List - r.Pool.Query'' (Backend msg)))
       | Inr rows \<Rightarrow> scan_rows ''List'' env rows)"
    unfolding List_def Let_def Q_def so_def sb_def p_def pp_def by (rule refl)
  have S: "Search env tbl [] sortBy sortOrder page perPage =
      (case Q of
         Inl msg \<Rightarrow> ([], Some (Wrapf ''BookDatabaseRepo - Search - r.Pool.Query'' (Backend msg)))
       | Inr rows \<Rightarrow> scan_rows ''Search'' env rows)"
    unfolding Search_def Let_def Q_def so_def sb_def p_def pp_def pat Pool_Query_search_empty
    by (rule refl)
  have "fst (Search env tbl [] sortBy sortOrder page perPage) = fst (List env tbl sortBy sortOrder page perPage) \<and>
   (snd (Search env tbl [] sortBy sortOrder page perPage) = None \<longleftrightarrow>
    snd (List env tbl sortBy sortOrder page perPage) = None)"
    unfolding L S by (cases Q) (simp_all add: scan_rows_fst scan_rows_snd)
  moreover have "fst (CountSearch fault tbl []) = fst (Count fault tbl) \<and>
   (snd (CountSearch fault tbl []) = None \<longleftrightarrow> snd (Count fault tbl) = None)"
    by (cases fault) (simp_all add: CountSearch_def Count_def Let_def filter_search_empty)
  ultimately show ?thesis by simp
qed

theorem Search_empty_query_is_List_witness:
  "fst (Search example_query_env (catalog example_world) [] ''title'' ''asc'' 1 25) =
     [Scan example_row] \<and>
   snd (Search example_query_env (catalog example_world) [] ''title'' ''asc'' 1 25) = None \<and>
   fst (CountSearch None (catalog example_world) []) = 1"
proof -
  have l: "List example_query_env (catalog example_world) ''title'' ''asc'' 1 25 =
      ([Scan example_row], None)"
    by (subst List_valid)
       (simp_all add: sortable_columns_def Pool_Query_def example_query_env_def example_world_def
         order_by_def sort_by_def scan_rows_def)
  have c: "Count None (catalog example_world) = (1, None)"
    by (simp add: Count_def example_world_def)
  from Search_empty_query_is_List[of example_query_env "catalog example_world" "''title''"
      "''asc''" 1 25 None] l c
  show ?thesis by simp
qed

text \<open>The offset in Go's \<open>int\<close>, when it does not wrap around.\<close>

lemma sint_pred:
  fixes p :: go_int
  assumes "1 \<le> sint p"
  shows "sint (p - 1) = sint p - 1"
proof -
  have "sint p < 2 ^ 63" using sint_lt[of p] by simp
  with assms have "signed_take_bit 63 (sint p - 1) = sint p - 1"
    by (intro signed_take_bit_int_eq_self) auto
  then show ?thesis by (simp add: sint_word_ariths)
qed

lemma sint_offset:
  fixes p pp :: go_int
  assumes "1 \<le> sint p" and "1 \<le> sint pp" and "(sint p - 1) * sint pp < 2 ^ 63"
  shows "sint ((p - 1) * pp) = (sint p - 1) * sint pp"
proof -
  have "0 \<le> (sint p - 1) * sint pp" using assms by simp
  with assms(3) have "signed_take_bit 63 ((sint p - 1) * sint pp) = (sint p - 1) * sint pp"
    by (intro signed_take_bit_int_eq_self) auto
  then show ?thesis using sint_pred[OF assms(1)] by (simp add: sint_word_ariths)
qed

lemma Search_valid:
  assumes "sortBy \<in> set sortable_columns" and "sortOrder = ''asc'' \<or> sortOrder = ''desc''"
      and "0 < sint page" and "0 < sint perPage" and "sint perPage \<le> 100"
  shows "Search env tbl query sortBy sortOrder page perPage =
     (case Pool_Query (q_Query_fault env) (search_condition (''%'' @ query @ ''%'')) sortBy sortOrder
                (sint perPage) (sint ((page - 1) * perPage)) tbl of
           Inl msg \<Rightarrow> ([], Some (Wrapf ''BookDatabaseRepo - Search - r.Pool.Query'' (Backend msg)))
         | Inr rows \<Rightarrow> scan_rows ''Search'' env rows)"
  using assms unfolding Search_def Let_def by simp

lemma Pool_Query_rows:
  assumes "col \<in> set sortable_columns" and "dir = ''asc'' \<or> dir = ''desc''"
      and "0 \<le> lim" and "0 \<le> off"
  shows "Pool_Query None cond col dir lim off tbl =
     Inr (take (nat lim) (drop (nat off) (order_by col dir (filter cond tbl))))"
  using assms by (auto simp: Pool_Query_def)

lemma scan_rows_no_fault:
  assumes "q_Scan_fault env = None" and "q_Err_fault env = None"
  shows "scan_rows method env rows = (map Scan rows, None)"
  using assms by (simp add: scan_rows_def split: list.splits)

text \<open>
  C4, as stated, fails: the offset is computed in Go's 64-bit \<open>int\<close> and wraps
  around. For page 4611686018427387905 and page size 4 the product (page - 1) * 4 is
  \<open>2 ^ 64\<close>, the statement carries \<open>OFFSET 0\<close>, and \<open>List\<close> returns the first
  row of a catalog of one row instead of skipping it.
\<close>

theorem List_offset_overflow_counterexample:
  "fst (List example_query_env [example_row] ''title'' ''asc'' 4611686018427387905 4)
     \<noteq> map Scan (take 4 (drop ((4611686018427387905 - 1) * 4)
           (order_by ''title'' ''asc'' [example_row])))"
proof -
  have p: "sint (4611686018427387905 :: go_int) = 4611686018427387905" by simp
  have off: "((4611686018427387905 :: go_int) - 1) * 4 = 0" by simp
  have "List example_query_env [example_row] ''title'' ''asc'' 4611686018427387905 4 =
      ([Scan example_row], None)"
    by (subst List_valid)
       (simp_all add: sortable_columns_def p off Pool_Query_def example_query_env_def
         order_by_def sort_by_def scan_rows_def)
  moreover have "order_by ''title'' ''asc'' [example_row] = [example_row]"
    by (simp add: order_by_def sort_by_def)
  ultimately show ?thesis by simp
qed

text \<open>
  C4, amended. For every input to \<open>List\<close> and \<open>Search\<close>, with \<open>sb\<close>, \<open>so\<close>,
  \<open>p\<close> and \<open>pp\<close> the sort column, the direction, the page and the page size after
  the replacements (a column outside the seven by \<open>created_at\<close>, a direction outside
  \<open>asc\<close> and \<open>desc\<close> by \<open>desc\<close>, a page \<open>\<le> 0\<close> by 1, a page size \<open>\<le> 0\<close>
  or \<open>> 100\<close> by 25): the replaced values are in range, the call is the call on the
  replaced values, and, whenever \<open>(p - 1) * pp\<close> is below \<open>2 ^ 63\<close> (it fits Go's
  \<open>int\<close>) and the backend answers, the call returns without error the rows that remain
  after skipping exactly \<open>(p - 1) * pp\<close> rows of the ordered result, at most \<open>pp\<close>
  of them.
\<close>

theorem List_Search_sanitize:
  fixes page perPage p pp :: go_int
  assumes so: "so = (if sortOrder = ''asc'' \<or> sortOrder = ''desc'' then sortOrder else ''desc'')"
      and sb: "sb = (if sortBy \<in> set sortable_columns then sortBy else ''created_at'')"
      and p: "p = (if sint page \<le> 0 then 1 else page)"
      and pp: "pp = (if sint perPage \<le> 0 \<or> sint perPage > 100 then 25 else perPage)"
  shows "sb \<in> set sortable_columns \<and> (so = ''asc'' \<or> so = ''desc'') \<and>
         1 \<le> sint p \<and> 1 \<le> sint pp \<and> sint pp \<le> 100 \<and>
         List env tbl sortBy sortOrder page perPage = List env tbl sb so p pp \<and>
         Search env tbl query sortBy sortOrder page perPage = Search env tbl query sb so p pp \<and>
         ((sint p - 1) * sint pp < 2 ^ 63 \<longrightarrow>
          q_Query_fault env = None \<longrightarrow> q_Scan_fault env = None \<longrightarrow> q_Err_fault env = None \<longrightarrow>
            List env tbl sortBy sortOrder page perPage =
              (map Scan (take (nat (sint pp)) (drop (nat ((sint p - 1) * sint pp))
                 (order_by sb so tbl))), None) \<and>
            Search env tbl query sortBy sortOrder page perPage =
              (map Scan (take (nat (sint pp)) (drop (nat ((sint p - 1) * sint pp))
                 (order_by sb so (filter (search_condition (''%'' @ query @ ''%'')) tbl)))), None) \<and>
            length (fst (List env tbl sortBy sortOrder page perPage)) \<le> nat (sint pp) \<and>
            length (fst (Search env tbl query sortBy sortOrder page perPage)) \<le> nat (sint pp))"
proof -
  have v1: "sb \<in> set sortable_columns" by (simp add: sb sortable_columns_def)
  have v2: "so = ''asc'' \<or> so = ''desc''" by (simp add: so)
  have v3: "1 \<le> sint p" by (simp add: p)
  have v4: "1 \<le> sint pp" by (simp add: pp)
  have v5: "sint pp \<le> 100" by (simp add: pp)
  have L0: "List env tbl sortBy sortOrder page perPage =
     (case Pool_Query (q_Query_fault env) (\<lambda>r. True) sb so (sint pp) (sint ((p - 1) * pp)) tbl of
           Inl msg \<Rightarrow> ([], Some (Wrapf ''BookDatabaseRepo - List - r.Pool.Query'' (Backend msg)))
         | Inr rows \<Rightarrow> scan_rows ''List'' env rows)"
    unfolding List_def Let_def so sb p pp by (rule refl)
  have S0: "Search env tbl query sortBy sortOrder page perPage =
     (case Pool_Query (q_Query_fault env) (search_condition (''%'' @ query @ ''%'')) sb so
                (sint pp) (sint ((p - 1) * pp)) tbl of
           Inl msg \<Rightarrow> ([], Some (Wrapf ''BookDatabaseRepo - Search - r.Pool.Query'' (Backend msg)))
         | Inr rows \<Rightarrow> scan_rows ''Search'' env rows)"
    unfolding Search_def Let_def so sb p pp by (rule refl)
  have L1: "List env tbl sortBy sortOrder page perPage = List env tbl sb so p pp"
    unfolding L0 using v1 v2 v3 v4 v5 by (subst List_valid) simp_all
  have S1: "Search env tbl query sortBy sortOrder page perPage = Search env tbl query sb so p pp"
    unfolding S0 using v1 v2 v3 v4 v5 by (subst Search_valid) simp_all
  have rows: "List env tbl sortBy sortOrder page perPage =
              (map Scan (take (nat (sint pp)) (drop (nat ((sint p - 1) * sint pp))
                 (order_by sb so tbl))), None) \<and>
            Search env tbl query sortBy sortOrder page perPage =
              (map Scan (take (nat (sint pp)) (drop (nat ((sint p - 1) * sint pp))
                 (order_by sb so (filter (search_condition (''%'' @ query @ ''%'')) tbl)))), None) \<and>
            length (fst (List env tbl sortBy sortOrder page perPage)) \<le> nat (sint pp) \<and>
            length (fst (Search env tbl query sortBy sortOrder page perPage)) \<le> nat (sint pp)"
    if fit: "(sint p - 1) * sint pp < 2 ^ 63"
      and nf: "q_Query_fault env = None" "q_Scan_fault env = None" "q_Err_fault env = None"
  proof -
    have off: "sint ((p - 1) * pp) = (sint p - 1) * sint pp"
      using v3 v4 fit by (rule sint_offset)
    have nn: "0 \<le> (sint p - 1) * sint pp" using v3 v4 by simp
    have lim: "0 \<le> sint pp" using v4 by simp
    have l: "List env tbl sortBy sortOrder page perPage =
              (map Scan (take (nat (sint pp)) (drop (nat ((sint p - 1) * sint pp))
                 (order_by sb so tbl))), None)"
      unfolding L0 nf off Pool_Query_rows[OF v1 v2 lim nn] by (simp add: scan_rows_no_fault nf)
    have s: "Search env tbl query sortBy sortOrder page perPage =
              (map Scan (take (nat (sint pp)) (drop (nat ((sint p - 1) * sint pp))
                 (order_by sb so (filter (search_condition (''%'' @ query @ ''%'')) tbl)))), None)"
      unfolding S0 nf off Pool_Query_rows[OF v1 v2 lim nn] by (simp add: scan_rows_no_fault nf)
    show ?thesis unfolding l s by simp
  qed
  from v1 v2 v3 v4 v5 L1 S1 rows show ?thesis by blast
qed

theorem List_Search_sanitize_witness:
  "List example_query_env (catalog example_world) ''bogus'' ''nonsense'' 0 200 =
     ([Scan example_row], None) \<and>
   Search example_query_env (catalog example_world) ''dune'' ''bogus'' ''nonsense'' 0 200 =
     ([Scan example_row], None)"
proof -
  have so: "''desc'' = (if ''nonsense'' = ''asc'' \<or> ''nonsense'' = ''desc'' then ''nonsense'' else ''desc'')"
    by simp
  have sb: "''created_at'' = (if ''bogus'' \<in> set sortable_columns then ''bogus'' else ''created_at'')"
    by (simp add: sortable_columns_def)
  have p: "(1 :: go_int) = (if sint (0 :: go_int) \<le> 0 then 1 else 0)" by simp
  have pp: "(25 :: go_int) = (if sint (200 :: go_int) \<le> 0 \<or> sint (200 :: go_int) > 100 then 25 else 200)"
    by simp
  have fit: "(sint (1 :: go_int) - 1) * sint (25 :: go_int) < 2 ^ 63" by simp
  have nf: "q_Query_fault example_query_env = None" "q_Scan_fault example_query_env = None"
    "q_Err_fault example_query_env = None"
    by (simp_all add: example_query_env_def)
  have ord: "order_by ''created_at'' ''desc'' (catalog example_world) = [example_row]"
    by (simp add: order_by_def sort_by_def example_world_def)
  have hit: "search_condition (''%'' @ ''dune'' @ ''%'') example_row"
    by code_simp
  have flt: "filter (search_condition (''%'' @ ''dune'' @ ''%'')) (catalog example_world) =
      catalog example_world"
    using hit by (simp add: example_world_def)
  from List_Search_sanitize[OF so sb p pp, where env = example_query_env
      and tbl = "catalog example_world" and query = "''dune''"] fit nf
  have "List example_query_env (catalog example_world) ''bogus'' ''nonsense'' 0 200 =
     (map Scan (take (nat (sint (25 :: go_int))) (drop (nat ((sint (1 :: go_int) - 1) * sint (25 :: go_int)))
        (order_by ''created_at'' ''desc'' (catalog example_world)))), None) \<and>
   Search example_query_env (catalog example_world) ''dune'' ''bogus'' ''nonsense'' 0 200 =
     (map Scan (take (nat (sint (25 :: go_int))) (drop (nat ((sint (1 :: go_int) - 1) * sint (25 :: go_int)))
        (order_by ''created_at'' ''desc''
           (filter (search_condition (''%'' @ ''dune'' @ ''%'')) (catalog example_world))))), None)"
    by blast
  then show ?thesis unfolding flt ord by simp
qed

end
